theory Spec2Isabelle
  imports Complex_Main "HOL-Library.Sublist"
begin

section \<open>Strings\<close>

text \<open>
  JavaScript strings are modelled as \<^typ>\<open>string\<close>, a character standing for the code
  unit of the same number (0 to 255, the Latin-1 range). On that range white space, as
  \<open>trim\<close> and the class \<open>\s\<close> take it, is TAB, LF, VT, FF, CR, the space and the
  no-break space U+00A0; the digits of \<open>\d\<close> and the word characters of \<open>\w\<close> are the
  ASCII ones.
\<close>

definition isWhiteSpace :: "char \<Rightarrow> bool" where
  "isWhiteSpace c =
     (c \<in> set [CHR 0x09, CHR 0x0A, CHR 0x0B, CHR 0x0C, CHR 0x0D, CHR '' '', CHR 0xA0])"

definition isDigit :: "char \<Rightarrow> bool" where
  "isDigit c = (c \<in> set ''0123456789'')"

text \<open>
  Lower case: A-Z and the Latin-1 capitals U+00C0 to U+00DE (without the multiplication
  sign U+00D7) move up by 32. Upper case: a-z and U+00E0 to U+00FE (without the division
  sign U+00F7) move down by 32, and the sharp s U+00DF becomes \<open>SS\<close>. The upper-case
  forms of the micro sign U+00B5 and of U+00FF lie outside the range; the two
  characters stand for them, which keeps every comparison of upper-cased strings.
\<close>

definition toLowerChar :: "char \<Rightarrow> char" where
  "toLowerChar c =
     (let n = (of_char c :: nat)
      in if (65 \<le> n \<and> n \<le> 90) \<or> (192 \<le> n \<and> n \<le> 222 \<and> n \<noteq> 215)
         then char_of (n + 32) else c)"

definition toUpperChar :: "char \<Rightarrow> char" where
  "toUpperChar c =
     (let n = (of_char c :: nat)
      in if (97 \<le> n \<and> n \<le> 122) \<or> (224 \<le> n \<and> n \<le> 254 \<and> n \<noteq> 247)
         then char_of (n - 32) else c)"

definition toLowerCase :: "string \<Rightarrow> string" where
  "toLowerCase s = map toLowerChar s"

definition toUpperCase :: "string \<Rightarrow> string" where
  "toUpperCase s = concat (map (\<lambda>c. if c = CHR 0xDF then ''SS'' else [toUpperChar c]) s)"

definition trim :: "string \<Rightarrow> string" where
  "trim s = rev (dropWhile isWhiteSpace (rev (dropWhile isWhiteSpace s)))"

fun startsWith :: "string \<Rightarrow> string \<Rightarrow> bool" where
  "startsWith s [] = True"
| "startsWith [] (p # ps) = False"
| "startsWith (c # cs) (p # ps) = (c = p \<and> startsWith cs ps)"

text \<open>\<open>String.prototype.includes\<close>: the argument occurs as a contiguous substring.\<close>

fun str_includes :: "string \<Rightarrow> string \<Rightarrow> bool" where
  "str_includes [] sub = startsWith [] sub"
| "str_includes (c # cs) sub = (startsWith (c # cs) sub \<or> str_includes cs sub)"

section \<open>Data model (lib/types.ts)\<close>

datatype content_type = Movie | Tv

fun type_str :: "content_type \<Rightarrow> string" where
  "type_str Movie = ''movie''"
| "type_str Tv = ''tv''"

text \<open>
  The \<open>Content\<close> interface. Numbers that are ratings are finite and modelled as reals;
  the release year is an integer.
\<close>

record content =
  cid :: int
  title :: string
  ctype :: content_type
  description :: string
  release_year :: int
  imdb_rating :: real
  tmdb_rating :: real
  genre :: string
  streaming_platforms :: "string list"
  country :: string
  language :: string

text \<open>
  The \<open>SearchFilters\<close> interface: five mandatory strings, two optional numbers.
\<close>

record search_filters =
  platform :: string
  fgenre :: string
  flanguage :: string
  fcountry :: string
  ftype :: string
  year :: "int option"
  rating_min :: "real option"

definition LANGUAGE_CODES :: "(string \<times> string) list" where
  "LANGUAGE_CODES =
     [(''hindi'', ''hi''), (''english'', ''en''), (''spanish'', ''es''), (''french'', ''fr''),
      (''german'', ''de''), (''italian'', ''it''), (''japanese'', ''ja''), (''korean'', ''ko''),
      (''chinese'', ''zh''), (''portuguese'', ''pt''), (''russian'', ''ru''), (''arabic'', ''ar''),
      (''tamil'', ''ta''), (''telugu'', ''te''), (''bengali'', ''bn''), (''marathi'', ''mr''),
      (''gujarati'', ''gu''), (''punjabi'', ''pa''), (''malayalam'', ''ml''), (''kannada'', ''kn'')]"

section \<open>applyFilters (lib/movie-api.ts)\<close>

text \<open>
  The language block computes \<open>isMatch\<close> from the upper-cased, trimmed filter and item
  languages: direct equality, a table lookup under the lower-cased filter, or a scan of
  the table entries.
\<close>

definition languageIsMatch :: "string \<Rightarrow> string \<Rightarrow> bool" where
  "languageIsMatch filterLanguage itemLanguage =
     (itemLanguage = filterLanguage
      \<or> map_of LANGUAGE_CODES (toLowerCase filterLanguage) = Some itemLanguage
      \<or> list_ex (\<lambda>(name, code).
            (toUpperCase name = filterLanguage \<and> toUpperCase code = itemLanguage)
          \<or> (toUpperCase code = filterLanguage \<and> toUpperCase code = itemLanguage))
          LANGUAGE_CODES)"

text \<open>
  The callback given to \<open>content.filter\<close>: seven guarded blocks, each of which may
  return \<open>false\<close>; an item that passes them all is kept.
\<close>

definition keepItem :: "search_filters \<Rightarrow> content \<Rightarrow> bool" where
  "keepItem filters item =
     (if (ftype filters \<noteq> [] \<and> trim (ftype filters) \<noteq> [])
         \<and> type_str (ctype item) \<noteq> ftype filters then False
      else if (fgenre filters \<noteq> [] \<and> trim (fgenre filters) \<noteq> [])
         \<and> \<not> str_includes (toLowerCase (genre item)) (trim (toLowerCase (fgenre filters))) then False
      else if (flanguage filters \<noteq> [] \<and> trim (flanguage filters) \<noteq> [])
         \<and> \<not> languageIsMatch (trim (toUpperCase (flanguage filters)))
                               (trim (toUpperCase (language item))) then False
      else if (fcountry filters \<noteq> [] \<and> trim (fcountry filters) \<noteq> [])
         \<and> trim (toUpperCase (country item)) \<noteq> trim (toUpperCase (fcountry filters)) then False
      else if (platform filters \<noteq> [] \<and> trim (platform filters) \<noteq> [])
         \<and> \<not> list_ex (\<lambda>p. str_includes (toLowerCase p) (trim (toLowerCase (platform filters)))
                           \<or> str_includes (trim (toLowerCase (platform filters))) (toLowerCase p))
                      (streaming_platforms item) then False
      else if (case rating_min filters of None \<Rightarrow> False
               | Some r \<Rightarrow> r \<noteq> 0 \<and> r > 0 \<and> tmdb_rating item < r \<and> imdb_rating item < r) then False
      else if (case year filters of None \<Rightarrow> False
               | Some y \<Rightarrow> y \<noteq> 0 \<and> y > 1900 \<and> \<bar>release_year item - y\<bar> > 1) then False
      else True)"

definition applyFilters :: "content list \<Rightarrow> search_filters \<Rightarrow> content list" where
  "applyFilters content filters = filter (keepItem filters) content"

subsection \<open>The seven field-level predicates\<close>

text \<open>One predicate per block of the callback: the block does not return \<open>false\<close>.\<close>

definition typeOk :: "search_filters \<Rightarrow> content \<Rightarrow> bool" where
  "typeOk filters item =
     (\<not> ((ftype filters \<noteq> [] \<and> trim (ftype filters) \<noteq> [])
         \<and> type_str (ctype item) \<noteq> ftype filters))"

definition genreOk :: "search_filters \<Rightarrow> content \<Rightarrow> bool" where
  "genreOk filters item =
     (\<not> ((fgenre filters \<noteq> [] \<and> trim (fgenre filters) \<noteq> [])
         \<and> \<not> str_includes (toLowerCase (genre item)) (trim (toLowerCase (fgenre filters)))))"

definition languageOk :: "search_filters \<Rightarrow> content \<Rightarrow> bool" where
  "languageOk filters item =
     (\<not> ((flanguage filters \<noteq> [] \<and> trim (flanguage filters) \<noteq> [])
         \<and> \<not> languageIsMatch (trim (toUpperCase (flanguage filters)))
                               (trim (toUpperCase (language item)))))"

definition countryOk :: "search_filters \<Rightarrow> content \<Rightarrow> bool" where
  "countryOk filters item =
     (\<not> ((fcountry filters \<noteq> [] \<and> trim (fcountry filters) \<noteq> [])
         \<and> trim (toUpperCase (country item)) \<noteq> trim (toUpperCase (fcountry filters))))"

definition platformOk :: "search_filters \<Rightarrow> content \<Rightarrow> bool" where
  "platformOk filters item =
     (\<not> ((platform filters \<noteq> [] \<and> trim (platform filters) \<noteq> [])
         \<and> \<not> list_ex (\<lambda>p. str_includes (toLowerCase p) (trim (toLowerCase (platform filters)))
                           \<or> str_includes (trim (toLowerCase (platform filters))) (toLowerCase p))
                      (streaming_platforms item)))"

definition ratingOk :: "search_filters \<Rightarrow> content \<Rightarrow> bool" where
  "ratingOk filters item =
     (\<not> (case rating_min filters of None \<Rightarrow> False
         | Some r \<Rightarrow> r \<noteq> 0 \<and> r > 0 \<and> tmdb_rating item < r \<and> imdb_rating item < r))"

definition yearOk :: "search_filters \<Rightarrow> content \<Rightarrow> bool" where
  "yearOk filters item =
     (\<not> (case year filters of None \<Rightarrow> False
         | Some y \<Rightarrow> y \<noteq> 0 \<and> y > 1900 \<and> \<bar>release_year item - y\<bar> > 1))"

definition fieldPredicates :: "search_filters \<Rightarrow> (content \<Rightarrow> bool) list" where
  "fieldPredicates filters =
     [typeOk filters, genreOk filters, languageOk filters, countryOk filters,
      platformOk filters, ratingOk filters, yearOk filters]"

text \<open>Filtering by one predicate after another, the first of the list last.\<close>

definition filterEach :: "('a \<Rightarrow> bool) list \<Rightarrow> 'a list \<Rightarrow> 'a list" where
  "filterEach ps xs = foldr filter ps xs"

section \<open>The upstream API as seen by the search functions\<close>

text \<open>
  An outbound call names an endpoint, the query text and the page. \<open>fetch\<close> either
  rejects with a thrown value or resolves to a response; reading the body of a response
  as text or as JSON may reject as well. The JSON body is represented by its
  \<open>results\<close> array, \<open>None\<close> when the field is missing.
\<close>

datatype endpoint = SearchMovie | SearchTv | DiscoverMovie | DiscoverTv

record request =
  endpoint :: endpoint
  rquery :: string
  rpage :: nat

datatype thrown = Error string | NonError

text \<open>\<open>error instanceof Error ? error.message : "Unknown error"\<close>\<close>

fun errorMessage :: "thrown \<Rightarrow> string" where
  "errorMessage (Error m) = m"
| "errorMessage NonError = ''Unknown error''"

record 'raw http_response =
  ok :: bool
  status :: nat
  statusText :: string
  bodyText :: "thrown + string"
  bodyJson :: "thrown + 'raw list option"

text \<open>
  The environment of a request: the configured API key, the upstream behind \<open>fetch\<close>,
  the converters from an upstream record to a \<open>Content\<close> item (the watch-provider and
  trailer lookups and the random platform choice are part of them), and the message of
  the TypeError the engine raises when a property of \<open>undefined\<close> is read.
\<close>

record 'raw env =
  TMDB_API_KEY :: string
  fetch :: "request \<Rightarrow> thrown + 'raw http_response"
  convertTMDBMovieToContentWithRealData :: "'raw \<Rightarrow> content"
  convertTMDBMovieToContent :: "'raw \<Rightarrow> content"
  convertTMDBTVToContentWithRealData :: "'raw \<Rightarrow> content"
  convertTMDBTVToContent :: "'raw \<Rightarrow> content"
  undefinedReadMessage :: string

text \<open>The \<open>APIResponse\<close> envelope, with the \<open>message\<close> field searchContent adds.\<close>

record api_response =
  success :: bool
  data :: "content list option"
  error :: "string option"
  message :: "string option"

definition failure :: "string \<Rightarrow> api_response" where
  "failure e = \<lparr>success = False, data = None, error = Some e, message = None\<rparr>"

definition succeed :: "content list \<Rightarrow> api_response" where
  "succeed xs = \<lparr>success = True, data = Some xs, error = None, message = None\<rparr>"

text \<open>Decimal rendering of a number inside a template string.\<close>

fun showNat :: "nat \<Rightarrow> string" where
  "showNat n = (if n < 10 then [''0123456789'' ! n]
                else showNat (n div 10) @ [''0123456789'' ! (n mod 10)])"

declare showNat.simps [simp del]

definition keyMissing :: "string \<Rightarrow> bool" where
  "keyMissing k = (k = [] \<or> k = ''your_tmdb_api_key_here'')"

definition authFailedMessage :: string where
  "authFailedMessage = ''API authentication failed. Please check your TMDB API key is valid and active.''"

section \<open>searchMovies and searchTVShows\<close>

text \<open>
  Each function returns its envelope together with the outbound calls it made. The whole
  body is inside \<open>try\<close>/\<open>catch\<close>, and the handler only builds a failure envelope, so every
  path returns an envelope.
\<close>

definition searchMovies :: "'raw env \<Rightarrow> string \<Rightarrow> nat \<Rightarrow> api_response \<times> request list" where
  "searchMovies env query page =
     (if keyMissing (TMDB_API_KEY env) then (failure ''TMDB API key is not configured'', [])
      else
        let url = \<lparr>endpoint = SearchMovie, rquery = query, rpage = page\<rparr> in
        (case fetch env url of
           Inl e \<Rightarrow> failure (''Movie search failed: '' @ errorMessage e)
         | Inr response \<Rightarrow>
             if \<not> ok response then
               (case bodyText response of
                  Inl e \<Rightarrow> failure (''Movie search failed: '' @ errorMessage e)
                | Inr errorText \<Rightarrow>
                    if status response = 401 then failure authFailedMessage
                    else failure (''API request failed: '' @ showNat (status response)
                                    @ '' '' @ statusText response))
             else
               (case bodyJson response of
                  Inl e \<Rightarrow> failure (''Movie search failed: '' @ errorMessage e)
                | Inr results \<Rightarrow>
                    let rs = (case results of None \<Rightarrow> [] | Some rs \<Rightarrow> rs);
                        movies = map (convertTMDBMovieToContentWithRealData env) (take 5 rs);
                        remainingMovies = map (convertTMDBMovieToContent env) (drop 5 rs)
                    in succeed (movies @ remainingMovies)),
         [url]))"

definition searchTVShows :: "'raw env \<Rightarrow> string \<Rightarrow> nat \<Rightarrow> api_response \<times> request list" where
  "searchTVShows env query page =
     (if keyMissing (TMDB_API_KEY env) then (failure ''TMDB API key is not configured'', [])
      else
        let url = \<lparr>endpoint = SearchTv, rquery = query, rpage = page\<rparr> in
        (case fetch env url of
           Inl e \<Rightarrow> failure (''TV search failed: '' @ errorMessage e)
         | Inr response \<Rightarrow>
             if \<not> ok response then
               (case bodyText response of
                  Inl e \<Rightarrow> failure (''TV search failed: '' @ errorMessage e)
                | Inr errorText \<Rightarrow>
                    if status response = 401 then failure authFailedMessage
                    else failure (''API request failed: '' @ showNat (status response)
                                    @ '' '' @ statusText response))
             else
               (case bodyJson response of
                  Inl e \<Rightarrow> failure (''TV search failed: '' @ errorMessage e)
                | Inr results \<Rightarrow>
                    let rs = (case results of None \<Rightarrow> [] | Some rs \<Rightarrow> rs);
                        tvShows = map (convertTMDBTVToContentWithRealData env) (take 5 rs);
                        remainingShows = map (convertTMDBTVToContent env) (drop 5 rs)
                    in succeed (tvShows @ remainingShows)),
         [url]))"

section \<open>searchContent\<close>

text \<open>
  The two \<open>while (hasMoreResults)\<close> loops of searchContent have the same body, one over
  searchMovies and one over searchTVShows; \<open>searchLoop\<close> is that body, with the page
  counter, the shared result array, the error array of the content type and the outbound
  calls made so far as its state. A loop that never leaves is the value \<open>None\<close>.
\<close>

partial_function (option) searchLoop ::
  "(nat \<Rightarrow> api_response \<times> request list) \<Rightarrow> nat \<Rightarrow> content list \<Rightarrow> string list \<Rightarrow> request list
     \<Rightarrow> (content list \<times> string list \<times> request list) option" where
  "searchLoop search currentPage allResults searchErrors calls =
     (case search currentPage of (response, made) \<Rightarrow>
        if success response \<and> data response \<noteq> None \<and> length (the (data response)) > 0 then
          (if length (the (data response)) < 20
           then Some (allResults @ the (data response), searchErrors, calls @ made)
           else searchLoop search (currentPage + 1) (allResults @ the (data response))
                  searchErrors (calls @ made))
        else
          Some (allResults,
                (if \<not> success response \<and> error response \<noteq> None \<and> error response \<noteq> Some []
                 then searchErrors @ [the (error response)] else searchErrors),
                calls @ made))"

declare searchLoop.simps [code]

text \<open>The comparator of the final sort.\<close>

definition compareRatings :: "content \<Rightarrow> content \<Rightarrow> real" where
  "compareRatings a b =
     (if tmdb_rating b \<noteq> tmdb_rating a then tmdb_rating b - tmdb_rating a
      else imdb_rating b - imdb_rating a)"

text \<open>
  \<open>Array.prototype.sort\<close> with a comparator: a stable sort that puts \<open>a\<close> before \<open>b\<close>
  when the comparator is negative, here by insertion from the right.
\<close>

fun insertBy :: "('a \<Rightarrow> 'a \<Rightarrow> real) \<Rightarrow> 'a \<Rightarrow> 'a list \<Rightarrow> 'a list" where
  "insertBy cmp x [] = [x]"
| "insertBy cmp x (y # ys) = (if cmp x y \<le> 0 then x # y # ys else y # insertBy cmp x ys)"

definition sortBy :: "('a \<Rightarrow> 'a \<Rightarrow> real) \<Rightarrow> 'a list \<Rightarrow> 'a list" where
  "sortBy cmp xs = foldr (insertBy cmp) xs []"

definition notFoundMessage :: string where
  "notFoundMessage = ''No movies or TV shows found matching your search criteria. Try different keywords or remove some filters.''"

text \<open>
  The filter and sort stage, after the loops. With \<open>filters\<close> undefined the filter
  callback raises a TypeError on the first item, which the handler of searchContent
  turns into a failure envelope.
\<close>

definition finishSearch :: "'raw env \<Rightarrow> content list \<Rightarrow> search_filters option \<Rightarrow> api_response" where
  "finishSearch env allResults filters =
     (case (if allResults = [] then Inr [] else
              (case filters of None \<Rightarrow> Inl (Error (undefinedReadMessage env))
                             | Some f \<Rightarrow> Inr (applyFilters allResults f))) of
        Inl e \<Rightarrow> failure (''Search failed: '' @ errorMessage e)
      | Inr filteredResults \<Rightarrow>
          let sortedResults = sortBy compareRatings filteredResults in
          if length sortedResults = 0 then failure notFoundMessage
          else \<lparr>success = True, data = Some sortedResults, error = None,
                 message = Some (''Found '' @ showNat (length sortedResults) @ '' results'')\<rparr>)"

definition searchContent ::
  "'raw env \<Rightarrow> string \<Rightarrow> search_filters option \<Rightarrow> (api_response \<times> request list) option" where
  "searchContent env query filters =
     (if keyMissing (TMDB_API_KEY env)
      then Some (failure ''TMDB API key is not configured. Please add your TMDB API key to environment variables.'', [])
      else
        (case searchLoop (searchMovies env query) 1 [] [] [] of
           None \<Rightarrow> None
         | Some (movieResults, movieSearchErrors, movieCalls) \<Rightarrow>
             (case searchLoop (searchTVShows env query) 1 movieResults [] movieCalls of
                None \<Rightarrow> None
              | Some (allResults, tvSearchErrors, calls) \<Rightarrow>
                  let allErrors = movieSearchErrors @ tvSearchErrors in
                  if length allResults = 0 \<and> length allErrors > 0
                  then Some (failure (hd allErrors), calls)
                  else Some (finishSearch env allResults filters, calls))))"

text \<open>
  Vocabulary for the loop: a page that keeps the loop going (a successful page of at
  least 20 items), the items a page adds to the result array, and the error it adds to
  the error array.
\<close>

definition fullPage :: "api_response \<Rightarrow> bool" where
  "fullPage r = (success r \<and> data r \<noteq> None \<and> length (the (data r)) \<ge> 20)"

definition pageItems :: "api_response \<Rightarrow> content list" where
  "pageItems r = (if success r \<and> data r \<noteq> None then the (data r) else [])"

definition pageErrors :: "api_response \<Rightarrow> string list" where
  "pageErrors r =
     (if \<not> success r \<and> error r \<noteq> None \<and> error r \<noteq> Some [] then [the (error r)] else [])"

text \<open>
  The assumption on the upstream: every page request yields a failure or a page of at
  most 20 items.
\<close>

definition withinPageSize :: "(nat \<Rightarrow> api_response \<times> request list) \<Rightarrow> bool" where
  "withinPageSize search =
     (\<forall>p. \<not> success (fst (search p))
          \<or> (case data (fst (search p)) of None \<Rightarrow> True | Some d \<Rightarrow> length d \<le> 20))"

section \<open>GET /api/content/search (app/api/content/search/route.ts)\<close>

text \<open>
  What the route takes from its runtime: \<open>Number.parseInt\<close> and \<open>Number.parseFloat\<close>
  (\<open>None\<close> stands for a result that is not a finite number) and the current year.
\<close>

record runtime =
  parseInt :: "string \<Rightarrow> int option"
  parseFloat :: "string \<Rightarrow> real option"
  currentYear :: int

text \<open>
  The JSON response of the route: status, the envelope fields, the \<open>source\<close> field and
  the Cache-Control header of the success response.
\<close>

record route_response =
  httpStatus :: nat
  body :: api_response
  source :: "string option"
  cacheControl :: "string option"

text \<open>\<open>searchParams.get(name) || ""\<close>\<close>

definition getOrEmpty :: "(string \<rightharpoonup> string) \<Rightarrow> string \<Rightarrow> string" where
  "getOrEmpty searchParams name = (case searchParams name of None \<Rightarrow> [] | Some v \<Rightarrow> v)"

text \<open>The block of GET that builds the filters object from the query parameters.\<close>

definition buildFilters :: "runtime \<Rightarrow> (string \<rightharpoonup> string) \<Rightarrow> search_filters" where
  "buildFilters rt searchParams =
     (let filters = \<lparr>platform = getOrEmpty searchParams ''platform'',
                      fgenre = getOrEmpty searchParams ''genre'',
                      flanguage = getOrEmpty searchParams ''language'',
                      fcountry = getOrEmpty searchParams ''country'',
                      ftype = getOrEmpty searchParams ''type'',
                      year = None, rating_min = None\<rparr>;
          filters1 =
            (case searchParams ''year'' of
               None \<Rightarrow> filters
             | Some y \<Rightarrow>
                 if y = [] then filters
                 else (case parseInt rt y of
                         None \<Rightarrow> filters
                       | Some yearNum \<Rightarrow>
                           if yearNum \<ge> 1900 \<and> yearNum \<le> currentYear rt + 5
                           then filters\<lparr>year := Some yearNum\<rparr> else filters));
          filters2 =
            (case searchParams ''rating_min'' of
               None \<Rightarrow> filters1
             | Some r \<Rightarrow>
                 if r = [] then filters1
                 else (case parseFloat rt r of
                         None \<Rightarrow> filters1
                       | Some ratingNum \<Rightarrow>
                           if ratingNum \<ge> 0 \<and> ratingNum \<le> 10
                           then filters1\<lparr>rating_min := Some ratingNum\<rparr> else filters1))
      in filters2)"

text \<open>What GET answers once searchContent has returned.\<close>

definition respond :: "api_response \<Rightarrow> route_response" where
  "respond result =
     (if \<not> success result
      then \<lparr>httpStatus = 500,
             body = \<lparr>success = False, data = None, error = error result, message = None\<rparr>,
             source = None, cacheControl = None\<rparr>
      else \<lparr>httpStatus = 200, body = result, source = Some ''tmdb_search'',
             cacheControl = Some ''public, s-maxage=1800, stale-while-revalidate=3600''\<rparr>)"

definition badRequest :: "string \<Rightarrow> route_response" where
  "badRequest e = \<lparr>httpStatus = 400, body = failure e, source = None, cacheControl = None\<rparr>"

text \<open>
  The handler returns its response and the outbound calls made on its behalf; \<open>None\<close>
  when searchContent never returns.
\<close>

definition GET ::
  "runtime \<Rightarrow> 'raw env \<Rightarrow> (string \<rightharpoonup> string) \<Rightarrow> (route_response \<times> request list) option" where
  "GET rt env searchParams =
     (case searchParams ''q'' of
        None \<Rightarrow> Some (badRequest ''Search query is required'', [])
      | Some query \<Rightarrow>
          if query = [] \<or> length (trim query) = 0
          then Some (badRequest ''Search query is required'', [])
          else if length query > 100
          then Some (badRequest ''Search query too long (max 100 characters)'', [])
          else
            (case searchContent env (trim query) (Some (buildFilters rt searchParams)) of
               None \<Rightarrow> None
             | Some (result, calls) \<Rightarrow> Some (respond result, calls)))"

section \<open>parseQueryIntelligently (lib/movie-api.ts)\<close>

text \<open>\<open>Partial<SearchFilters>\<close>: every field may be missing.\<close>

record partial_filters =
  pplatform :: "string option"
  pgenre :: "string option"
  planguage :: "string option"
  pcountry :: "string option"
  ptype :: "string option"
  pyear :: "int option"
  prating_min :: "real option"

text \<open>The spread \<open>{ ...filters }\<close> of an optional filters argument.\<close>

definition spreadFilters :: "search_filters option \<Rightarrow> partial_filters" where
  "spreadFilters filters =
     (case filters of
        None \<Rightarrow> \<lparr>pplatform = None, pgenre = None, planguage = None, pcountry = None,
                  ptype = None, pyear = None, prating_min = None\<rparr>
      | Some f \<Rightarrow> \<lparr>pplatform = Some (platform f), pgenre = Some (fgenre f),
                    planguage = Some (flanguage f), pcountry = Some (fcountry f),
                    ptype = Some (ftype f), pyear = year f, prating_min = rating_min f\<rparr>)"

text \<open>\<open>Object.keys(enhancedFilters).length\<close>\<close>

definition keyCount :: "partial_filters \<Rightarrow> nat" where
  "keyCount f =
     length (filter (\<lambda>b. b)
       [pplatform f \<noteq> None, pgenre f \<noteq> None, planguage f \<noteq> None, pcountry f \<noteq> None,
        ptype f \<noteq> None, pyear f \<noteq> None, prating_min f \<noteq> None])"

record search_intent =
  searchTerms :: "string option"
  ifilters :: partial_filters
  useDiscoverAPI :: bool
  reasoning :: string

definition isWordChar :: "char \<Rightarrow> bool" where
  "isWordChar c =
     (c \<in> set ''abcdefghijklmnopqrstuvwxyzABCDEFGHIJKLMNOPQRSTUVWXYZ0123456789_'')"

fun digitVal :: "char \<Rightarrow> nat" where
  "digitVal c = (case map_of (zip ''0123456789'' [0, 1, 2, 3, 4, 5, 6, 7, 8, 9]) c of
                   Some d \<Rightarrow> d | None \<Rightarrow> 0)"

text \<open>The value of a string of decimal digits.\<close>

definition digitsVal :: "string \<Rightarrow> nat" where
  "digitsVal ds = foldl (\<lambda>n c. 10 * n + digitVal c) 0 ds"

text \<open>
  The first match of \<open>/\b(19|20)\d{2}\b/\<close>: four digits that start with 19 or 20, not
  preceded and not followed by a word character. The second argument is whether the
  character before the current position is a word character.
\<close>

fun yearMatch :: "string \<Rightarrow> bool \<Rightarrow> string option" where
  "yearMatch [] prevWord = None"
| "yearMatch (c # cs) prevWord =
     (if \<not> prevWord
         \<and> (startsWith (c # cs) ''19'' \<or> startsWith (c # cs) ''20'')
         \<and> length (c # cs) \<ge> 4
         \<and> isDigit ((c # cs) ! 2) \<and> isDigit ((c # cs) ! 3)
         \<and> (length (c # cs) = 4 \<or> \<not> isWordChar ((c # cs) ! 4))
      then Some (take 4 (c # cs))
      else yearMatch cs (isWordChar c))"

definition topPatterns :: "string list" where
  "topPatterns = [''top'', ''best'', ''highest rated'', ''greatest'', ''popular'', ''trending'',
                  ''recommended'']"

definition genres :: "string list" where
  "genres = [''action'', ''comedy'', ''drama'', ''horror'', ''thriller'', ''romance'', ''sci-fi'',
             ''fantasy'', ''animation'', ''documentary'']"

definition platforms :: "string list" where
  "platforms = [''netflix'', ''hbo'', ''amazon prime'', ''disney'', ''apple tv'', ''paramount'',
                ''hulu'', ''zee5'', ''hotstar'']"

definition parseQueryIntelligently :: "string \<Rightarrow> search_filters option \<Rightarrow> search_intent" where
  "parseQueryIntelligently query filters =
     (let queryLower = trim (toLowerCase query);
          st0 = \<lparr>searchTerms = Some query, ifilters = spreadFilters filters,
                  useDiscoverAPI = False, reasoning = ''Using specific title search''\<rparr>;
          hasTopPattern = list_ex (\<lambda>pattern. str_includes queryLower pattern) topPatterns;
          st1 = (case find (\<lambda>(langName, langCode). str_includes queryLower langName) LANGUAGE_CODES of
                   None \<Rightarrow> st0
                 | Some (langName, langCode) \<Rightarrow>
                     let s = st0\<lparr>ifilters := (ifilters st0)\<lparr>planguage := Some (toUpperCase langCode)\<rparr>\<rparr>
                     in if str_includes queryLower (langName @ '' movies'')
                           \<or> str_includes queryLower (langName @ '' shows'')
                        then s\<lparr>useDiscoverAPI := True,
                               reasoning := ''Language-specific content discovery for '' @ langName,
                               searchTerms := None\<rparr>
                        else s);
          st2 = (case find (\<lambda>genreName. str_includes queryLower genreName) genres of
                   None \<Rightarrow> st1
                 | Some genreName \<Rightarrow>
                     let s = st1\<lparr>ifilters := (ifilters st1)\<lparr>pgenre := Some genreName\<rparr>\<rparr>
                     in if hasTopPattern \<or> str_includes queryLower (genreName @ '' movies'')
                           \<or> str_includes queryLower (genreName @ '' shows'')
                        then s\<lparr>useDiscoverAPI := True,
                               reasoning := ''Genre-based discovery for '' @ genreName,
                               searchTerms := None\<rparr>
                        else s);
          st3 = (case find (\<lambda>platformName. str_includes queryLower platformName) platforms of
                   None \<Rightarrow> st2
                 | Some platformName \<Rightarrow>
                     let s = st2\<lparr>ifilters := (ifilters st2)\<lparr>pplatform := Some platformName\<rparr>\<rparr>
                     in if hasTopPattern
                        then s\<lparr>useDiscoverAPI := True,
                               reasoning := ''Platform-specific discovery for '' @ platformName,
                               searchTerms := None\<rparr>
                        else s);
          st4 = (case yearMatch queryLower False of
                   None \<Rightarrow> st3
                 | Some y \<Rightarrow> st3\<lparr>ifilters := (ifilters st3)\<lparr>pyear := Some (int (digitsVal y))\<rparr>\<rparr>);
          st5 = (if str_includes queryLower ''movies'' \<and> \<not> str_includes queryLower ''tv''
                 then st4\<lparr>ifilters := (ifilters st4)\<lparr>ptype := Some ''movie''\<rparr>\<rparr>
                 else if str_includes queryLower ''shows'' \<or> str_includes queryLower ''series''
                         \<or> str_includes queryLower ''tv''
                 then st4\<lparr>ifilters := (ifilters st4)\<lparr>ptype := Some ''tv''\<rparr>\<rparr>
                 else st4)
      in if hasTopPattern \<and> keyCount (ifilters st5) > 0
         then st5\<lparr>useDiscoverAPI := True,
                   reasoning := ''Top-rated content discovery with filters'',
                   searchTerms := None\<rparr>
         else st5)"

section \<open>Regular expressions\<close>

text \<open>
  A backtracking matcher for the fragment of JavaScript regular expressions the
  recommendation route uses, with the \<open>i\<close> flag: literals (compared without case),
  ordered alternatives, sequences, greedy options, greedy and lazy repetition of a
  character class, and capture groups. The continuation receives the rest of the input
  and the captures so far; a failing continuation makes the matcher try the next
  choice, as the engine backtracks.
\<close>

datatype char_class = Space | Digit | Dot

fun inClass :: "char_class \<Rightarrow> char \<Rightarrow> bool" where
  "inClass Space c = isWhiteSpace c"
| "inClass Digit c = isDigit c"
| "inClass Dot c = (c \<noteq> CHR 0x0A \<and> c \<noteq> CHR 0x0D)"

datatype regex =
    Lit string
  | Alt regex regex
  | Seq regex regex
  | Opt regex
  | Star char_class
  | Plus char_class
  | LazyPlus char_class
  | Group nat regex

type_synonym captures = "(nat \<times> string) list"

fun starGreedy :: "(char \<Rightarrow> bool) \<Rightarrow> string \<Rightarrow> (string \<Rightarrow> captures option) \<Rightarrow> captures option" where
  "starGreedy p [] k = k []"
| "starGreedy p (x # xs) k =
     (if p x then (case starGreedy p xs k of Some r \<Rightarrow> Some r | None \<Rightarrow> k (x # xs))
      else k (x # xs))"

fun plusLazy :: "(char \<Rightarrow> bool) \<Rightarrow> string \<Rightarrow> (string \<Rightarrow> captures option) \<Rightarrow> captures option" where
  "plusLazy p [] k = None"
| "plusLazy p (x # xs) k =
     (if p x then (case k xs of Some r \<Rightarrow> Some r | None \<Rightarrow> plusLazy p xs k) else None)"

primrec matchAt ::
  "regex \<Rightarrow> string \<Rightarrow> captures \<Rightarrow> (string \<Rightarrow> captures \<Rightarrow> captures option) \<Rightarrow> captures option" where
  "matchAt (Lit l) s c k =
     (if length l \<le> length s \<and> toLowerCase (take (length l) s) = toLowerCase l
      then k (drop (length l) s) c else None)"
| "matchAt (Alt a b) s c k =
     (case matchAt a s c k of Some r \<Rightarrow> Some r | None \<Rightarrow> matchAt b s c k)"
| "matchAt (Seq a b) s c k = matchAt a s c (\<lambda>s' c'. matchAt b s' c' k)"
| "matchAt (Opt a) s c k =
     (case matchAt a s c k of Some r \<Rightarrow> Some r | None \<Rightarrow> k s c)"
| "matchAt (Star cl) s c k = starGreedy (inClass cl) s (\<lambda>s'. k s' c)"
| "matchAt (Plus cl) s c k =
     (case s of [] \<Rightarrow> None
      | x # xs \<Rightarrow> if inClass cl x then starGreedy (inClass cl) xs (\<lambda>s'. k s' c) else None)"
| "matchAt (LazyPlus cl) s c k = plusLazy (inClass cl) s (\<lambda>s'. k s' c)"
| "matchAt (Group n a) s c k =
     matchAt a s c (\<lambda>s' c'. k s' ((n, take (length s - length s') s) # c'))"

text \<open>\<open>String.prototype.match\<close> without the \<open>g\<close> flag: the leftmost match.\<close>

fun regexMatch :: "regex \<Rightarrow> string \<Rightarrow> captures option" where
  "regexMatch r [] = matchAt r [] [] (\<lambda>s c. Some c)"
| "regexMatch r (x # xs) =
     (case matchAt r (x # xs) [] (\<lambda>s c. Some c) of
        Some c \<Rightarrow> Some c
      | None \<Rightarrow> regexMatch r xs)"

fun alts :: "regex list \<Rightarrow> regex" where
  "alts [] = Lit []"
| "alts [r] = r"
| "alts (r # rs) = Alt r (alts rs)"

fun seqs :: "regex list \<Rightarrow> regex" where
  "seqs [] = Lit []"
| "seqs [r] = r"
| "seqs (r # rs) = Seq r (seqs rs)"

section \<open>The recommendation generator (app/api/ai/recommendations/route.ts)\<close>

record recommendation =
  rid :: string
  rtitle :: string
  rdescription :: string
  category :: string
  confidence :: real

text \<open>
  The environment of the generator: the Hugging Face key of the process, the outcome of
  generateRealAIRecommendations (an HTTP call to a text-generation model, which throws or
  returns a list), and the order in which the random comparator leaves a list.
\<close>

record ai_env =
  HUGGINGFACE_API_KEY :: "string option"
  generateRealAIRecommendations :: "string \<Rightarrow> string \<Rightarrow> real option \<Rightarrow> thrown + recommendation list"
  shuffle :: "recommendation list \<Rightarrow> recommendation list"

text \<open>
  \<open>/(?:list|show|give me|find)\s+(?:top\s+)?(\d+)?\s*(?:best|top|greatest|most popular)\s+(.+?)(?:movies?|tv shows?|series)/i\<close>
\<close>

definition topListPattern :: regex where
  "topListPattern =
     seqs [alts [Lit ''list'', Lit ''show'', Lit ''give me'', Lit ''find''],
           Plus Space,
           Opt (Seq (Lit ''top'') (Plus Space)),
           Opt (Group 1 (Plus Digit)),
           Star Space,
           alts [Lit ''best'', Lit ''top'', Lit ''greatest'', Lit ''most popular''],
           Plus Space,
           Group 2 (LazyPlus Dot),
           alts [Seq (Lit ''movie'') (Opt (Lit ''s'')),
                 Seq (Lit ''tv show'') (Opt (Lit ''s'')),
                 Lit ''series'']]"

text \<open>The tables, in the order of their keys.\<close>

definition topLists :: "(string \<times> recommendation list) list" where
  "topLists =
     [(''action'',
       [
        \<lparr>rid = ''a1'', rtitle = ''Mad Max: Fury Road'',
          rdescription = ''High-octane post-apocalyptic action masterpiece'',
          category = ''Action Movie'', confidence = 0.95\<rparr>,
        \<lparr>rid = ''a2'', rtitle = ''John Wick'',
          rdescription = ''Stylish revenge thriller with incredible choreography'',
          category = ''Action Movie'', confidence = 0.92\<rparr>,
        \<lparr>rid = ''a3'', rtitle = ''The Raid'',
          rdescription = ''Indonesian martial arts action film with brutal intensity'',
          category = ''Action Movie'', confidence = 0.9\<rparr>,
        \<lparr>rid = ''a4'', rtitle = ''Mission: Impossible - Fallout'',
          rdescription = ''Tom Cruise's most dangerous stunts in this spy thriller'',
          category = ''Action Movie'', confidence = 0.89\<rparr>,
        \<lparr>rid = ''a5'', rtitle = ''Daredevil'',
          rdescription = ''Netflix's gritty superhero series with amazing fight scenes'',
          category = ''Action Series'', confidence = 0.87\<rparr>]),
      (''horror'',
       [
        \<lparr>rid = ''h1'', rtitle = ''Hereditary'',
          rdescription = ''Psychological horror that redefines family trauma'',
          category = ''Horror Movie'', confidence = 0.94\<rparr>,
        \<lparr>rid = ''h2'', rtitle = ''The Conjuring'',
          rdescription = ''Classic supernatural horror with perfect atmosphere'',
          category = ''Horror Movie'', confidence = 0.91\<rparr>,
        \<lparr>rid = ''h3'', rtitle = ''Get Out'',
          rdescription = ''Social thriller that revolutionized horror cinema'',
          category = ''Horror Movie'', confidence = 0.93\<rparr>,
        \<lparr>rid = ''h4'', rtitle = ''The Haunting of Hill House'',
          rdescription = ''Netflix's masterful horror series about family and ghosts'',
          category = ''Horror Series'', confidence = 0.9\<rparr>,
        \<lparr>rid = ''h5'', rtitle = ''Midsommar'',
          rdescription = ''Disturbing folk horror set in broad daylight'',
          category = ''Horror Movie'', confidence = 0.88\<rparr>]),
      (''comedy'',
       [
        \<lparr>rid = ''c1'', rtitle = ''The Grand Budapest Hotel'',
          rdescription = ''Wes Anderson's whimsical comedy masterpiece'',
          category = ''Comedy Movie'', confidence = 0.92\<rparr>,
        \<lparr>rid = ''c2'', rtitle = ''Brooklyn Nine-Nine'',
          rdescription = ''Perfect workplace comedy with diverse cast'',
          category = ''Comedy Series'', confidence = 0.9\<rparr>,
        \<lparr>rid = ''c3'', rtitle = ''Parasite'',
          rdescription = ''Dark comedy thriller about class warfare'',
          category = ''Comedy-Thriller'', confidence = 0.95\<rparr>,
        \<lparr>rid = ''c4'', rtitle = ''Schitt's Creek'',
          rdescription = ''Heartwarming comedy about family and growth'',
          category = ''Comedy Series'', confidence = 0.89\<rparr>,
        \<lparr>rid = ''c5'', rtitle = ''What We Do in the Shadows'',
          rdescription = ''Vampire mockumentary series that's absolutely hilarious'',
          category = ''Comedy Series'', confidence = 0.87\<rparr>]),
      (''drama'',
       [
        \<lparr>rid = ''d1'', rtitle = ''Breaking Bad'',
          rdescription = ''The ultimate character transformation drama'',
          category = ''Crime Drama'', confidence = 0.97\<rparr>,
        \<lparr>rid = ''d2'', rtitle = ''The Godfather'',
          rdescription = ''Epic crime saga that defined cinema'',
          category = ''Drama Movie'', confidence = 0.96\<rparr>,
        \<lparr>rid = ''d3'', rtitle = ''Better Call Saul'',
          rdescription = ''Breaking Bad prequel with incredible character depth'',
          category = ''Crime Drama'', confidence = 0.94\<rparr>,
        \<lparr>rid = ''d4'', rtitle = ''Moonlight'',
          rdescription = ''Coming-of-age drama with beautiful cinematography'',
          category = ''Drama Movie'', confidence = 0.93\<rparr>,
        \<lparr>rid = ''d5'', rtitle = ''The Crown'',
          rdescription = ''Royal family drama with stunning production values'',
          category = ''Historical Drama'', confidence = 0.91\<rparr>]),
      (''sci-fi'',
       [
        \<lparr>rid = ''s1'', rtitle = ''Blade Runner 2049'',
          rdescription = ''Visually stunning cyberpunk masterpiece'',
          category = ''Sci-Fi Movie'', confidence = 0.94\<rparr>,
        \<lparr>rid = ''s2'', rtitle = ''The Expanse'',
          rdescription = ''Hard science fiction with realistic space politics'',
          category = ''Sci-Fi Series'', confidence = 0.92\<rparr>,
        \<lparr>rid = ''s3'', rtitle = ''Arrival'',
          rdescription = ''Thoughtful alien contact film about communication'',
          category = ''Sci-Fi Movie'', confidence = 0.91\<rparr>,
        \<lparr>rid = ''s4'', rtitle = ''Black Mirror'',
          rdescription = ''Anthology series exploring technology's dark side'',
          category = ''Sci-Fi Series'', confidence = 0.9\<rparr>,
        \<lparr>rid = ''s5'', rtitle = ''Dune'',
          rdescription = ''Epic space opera with incredible world-building'',
          category = ''Sci-Fi Movie'', confidence = 0.89\<rparr>]),
      (''netflix'',
       [
        \<lparr>rid = ''n1'', rtitle = ''Stranger Things'',
          rdescription = ''80s nostalgia meets supernatural horror'',
          category = ''Netflix Original'', confidence = 0.93\<rparr>,
        \<lparr>rid = ''n2'', rtitle = ''The Queen's Gambit'',
          rdescription = ''Chess prodigy's journey through addiction and genius'',
          category = ''Netflix Original'', confidence = 0.92\<rparr>,
        \<lparr>rid = ''n3'', rtitle = ''Ozark'',
          rdescription = ''Money laundering family drama in the Missouri Ozarks'',
          category = ''Netflix Original'', confidence = 0.9\<rparr>,
        \<lparr>rid = ''n4'', rtitle = ''Mindhunter'',
          rdescription = ''FBI profilers study serial killers in the 1970s'',
          category = ''Netflix Original'', confidence = 0.89\<rparr>,
        \<lparr>rid = ''n5'', rtitle = ''Dark'',
          rdescription = ''German time-travel thriller with complex storytelling'',
          category = ''Netflix Original'', confidence = 0.88\<rparr>])]"

definition mockRecommendations :: "(string \<times> recommendation list) list" where
  "mockRecommendations =
     [(''netflix'',
       [
        \<lparr>rid = ''1'', rtitle = ''Stranger Things'',
          rdescription = ''Supernatural thriller series set in the 1980s with great character development'',
          category = ''Netflix Original'', confidence = 0.9\<rparr>,
        \<lparr>rid = ''2'', rtitle = ''The Crown'',
          rdescription = ''Historical drama about the British Royal Family with excellent production values'',
          category = ''Netflix Original'', confidence = 0.85\<rparr>]),
      (''hbo'',
       [
        \<lparr>rid = ''3'', rtitle = ''Game of Thrones'',
          rdescription = ''Epic fantasy series with complex characters and political intrigue'',
          category = ''HBO Original'', confidence = 0.9\<rparr>,
        \<lparr>rid = ''4'', rtitle = ''The Last of Us'',
          rdescription = ''Post-apocalyptic drama based on the popular video game'',
          category = ''HBO Original'', confidence = 0.88\<rparr>]),
      (''sci-fi'',
       [
        \<lparr>rid = ''5'', rtitle = ''Blade Runner 2049'',
          rdescription = ''Visually stunning sequel to the classic cyberpunk film'',
          category = ''Sci-Fi Movie'', confidence = 0.92\<rparr>,
        \<lparr>rid = ''6'', rtitle = ''The Expanse'',
          rdescription = ''Hard science fiction series with realistic space politics'',
          category = ''Sci-Fi Series'', confidence = 0.87\<rparr>]),
      (''thriller'',
       [
        \<lparr>rid = ''7'', rtitle = ''Mindhunter'',
          rdescription = ''Psychological crime series about FBI profilers studying serial killers'',
          category = ''Crime Thriller'', confidence = 0.89\<rparr>,
        \<lparr>rid = ''8'', rtitle = ''Gone Girl'',
          rdescription = ''Psychological thriller about a missing wife and suspicious husband'',
          category = ''Psychological Thriller'', confidence = 0.86\<rparr>]),
      (''comedy'',
       [
        \<lparr>rid = ''9'', rtitle = ''The Office'',
          rdescription = ''Mockumentary sitcom about office workers with great character humor'',
          category = ''Comedy Series'', confidence = 0.91\<rparr>,
        \<lparr>rid = ''10'', rtitle = ''Brooklyn Nine-Nine'',
          rdescription = ''Police procedural comedy with diverse cast and clever writing'',
          category = ''Comedy Series'', confidence = 0.84\<rparr>]),
      (''ryan gosling'',
       [
        \<lparr>rid = ''11'', rtitle = ''La La Land'',
          rdescription = ''Musical romantic drama about aspiring artists in Los Angeles'',
          category = ''Musical Drama'', confidence = 0.93\<rparr>,
        \<lparr>rid = ''12'', rtitle = ''Drive'',
          rdescription = ''Neo-noir action film with stylish cinematography and minimal dialogue'',
          category = ''Action Thriller'', confidence = 0.88\<rparr>]),
      (''default'',
       [
        \<lparr>rid = ''13'', rtitle = ''Breaking Bad'',
          rdescription = ''Crime drama about a chemistry teacher turned methamphetamine manufacturer'',
          category = ''Crime Drama'', confidence = 0.95\<rparr>,
        \<lparr>rid = ''14'', rtitle = ''The Mandalorian'',
          rdescription = ''Star Wars series following a bounty hunter in the outer rim'',
          category = ''Sci-Fi Adventure'', confidence = 0.87\<rparr>,
        \<lparr>rid = ''15'', rtitle = ''Parasite'',
          rdescription = ''Korean thriller about class conflict and social inequality'',
          category = ''International Thriller'', confidence = 0.94\<rparr>])]"

text \<open>
  \<open>array.slice(0, count)\<close> for a finite number: the count is truncated towards zero,
  and a negative count is taken from the end.
\<close>

definition sliceTo :: "'a list \<Rightarrow> real \<Rightarrow> 'a list" where
  "sliceTo xs n =
     (let k = (if n \<ge> 0 then \<lfloor>n\<rfloor> else \<lceil>n\<rceil>)
      in if k \<ge> 0 then take (nat k) xs else take (nat (int (length xs) + k)) xs)"

definition keyMatches :: "string \<Rightarrow> string \<Rightarrow> bool" where
  "keyMatches categoryLower key = (str_includes categoryLower key \<or> str_includes key categoryLower)"

text \<open>
  A count is a JavaScript number: \<open>Some\<close> of a finite one, \<open>None\<close> for one that is not
  finite, which no length exceeds.
\<close>

definition generateTopListRecommendations :: "string \<Rightarrow> real option \<Rightarrow> recommendation list" where
  "generateTopListRecommendations cat count =
     (let categoryLower = toLowerCase cat;
          recommendations0 =
            (case find (\<lambda>(key, list). keyMatches categoryLower key) topLists of
               None \<Rightarrow> [] | Some (key, list) \<Rightarrow> list);
          recommendations1 =
            (if length recommendations0 = 0
             then sortBy (\<lambda>a b. confidence b - confidence a) (concat (map snd topLists))
             else recommendations0)
      in (case count of
            None \<Rightarrow> recommendations1
          | Some n \<Rightarrow> if real (length recommendations1) > n then sliceTo recommendations1 n
                      else recommendations1))"

definition generateMockRecommendations :: "ai_env \<Rightarrow> string \<Rightarrow> real \<Rightarrow> recommendation list" where
  "generateMockRecommendations env query maxRecommendations =
     (let queryLower = toLowerCase query;
          selected0 = concat (map snd (filter (\<lambda>(key, recommendations).
                        key \<noteq> ''default'' \<and> str_includes queryLower key) mockRecommendations));
          selected1 = (if length selected0 = 0
                       then (case map_of mockRecommendations ''default'' of
                               None \<Rightarrow> [] | Some d \<Rightarrow> d)
                       else selected0)
      in sliceTo (shuffle env selected1) maxRecommendations)"

text \<open>
  The two values taken from a match: the requested count (\<open>Number.parseInt\<close> of group
  1, else the caller's maximum) and the trimmed category (group 2, which every match
  defines).
\<close>

definition requestedCount :: "runtime \<Rightarrow> captures \<Rightarrow> real \<Rightarrow> real option" where
  "requestedCount rt caps maxRecommendations =
     (case map_of caps 1 of
        Some d \<Rightarrow> map_option real_of_int (parseInt rt d)
      | None \<Rightarrow> Some maxRecommendations)"

definition matchedCategory :: "captures \<Rightarrow> string" where
  "matchedCategory caps = trim (case map_of caps 2 of Some g \<Rightarrow> g | None \<Rightarrow> [])"

definition generateAIRecommendations ::
  "runtime \<Rightarrow> ai_env \<Rightarrow> string \<Rightarrow> real \<Rightarrow> recommendation list" where
  "generateAIRecommendations rt env query maxRecommendations =
     (case regexMatch topListPattern query of
        Some caps \<Rightarrow>
          let count = requestedCount rt caps maxRecommendations;
              cat = matchedCategory caps
          in if HUGGINGFACE_API_KEY env \<noteq> None \<and> HUGGINGFACE_API_KEY env \<noteq> Some []
             then (case generateRealAIRecommendations env query cat count of
                     Inr recommendations \<Rightarrow> recommendations
                   | Inl e \<Rightarrow> generateTopListRecommendations cat count)
             else generateTopListRecommendations cat count
      | None \<Rightarrow> generateMockRecommendations env query maxRecommendations)"

section \<open>Example data\<close>

definition item1 :: content where
  "item1 = \<lparr>cid = 1, title = ''Alien'', ctype = Movie, description = ''A crew meets a creature'',
            release_year = 1979, imdb_rating = 8.5, tmdb_rating = 8.1, genre = ''Horror, Science Fiction'',
            streaming_platforms = [''Hulu''], country = ''US'', language = ''EN''\<rparr>"

definition item2 :: content where
  "item2 = \<lparr>cid = 2, title = ''Dark'', ctype = Tv, description = ''A town and its secrets'',
            release_year = 2017, imdb_rating = 8.0, tmdb_rating = 7.96, genre = ''Drama, Mystery'',
            streaming_platforms = [''Netflix''], country = ''DE'', language = ''DE''\<rparr>"

definition item3 :: content where
  "item3 = \<lparr>cid = 3, title = ''Sharknado'', ctype = Movie, description = ''Sharks in a storm'',
            release_year = 2013, imdb_rating = 3.3, tmdb_rating = 3.3, genre = ''Horror, Comedy'',
            streaming_platforms = [''Peacock''], country = ''US'', language = ''EN''\<rparr>"

definition noFilters :: search_filters where
  "noFilters = \<lparr>platform = [], fgenre = [], flanguage = [], fcountry = [], ftype = [],
                year = None, rating_min = None\<rparr>"

definition horrorMovies :: search_filters where
  "horrorMovies = \<lparr>platform = [], fgenre = '' Horror'', flanguage = ''english'', fcountry = ''us'', ftype = ''movie'',
                year = None, rating_min = Some 5\<rparr>"

definition floor8 :: search_filters where
  "floor8 = \<lparr>platform = [], fgenre = [], flanguage = [], fcountry = [], ftype = [],
                year = None, rating_min = Some 8\<rparr>"

text \<open>Upstreams for the examples; the upstream records are the items themselves.\<close>

definition okPage :: "content list \<Rightarrow> content http_response" where
  "okPage rs = \<lparr>ok = True, status = 200, statusText = ''OK'', bodyText = Inr [],
                 bodyJson = Inr (Some rs)\<rparr>"

definition errorPage :: "nat \<Rightarrow> string \<Rightarrow> content http_response" where
  "errorPage code txt = \<lparr>ok = False, status = code, statusText = txt, bodyText = Inr ''{}'',
                          bodyJson = Inr None\<rparr>"

definition brokenBodyPage :: "nat \<Rightarrow> string \<Rightarrow> content http_response" where
  "brokenBodyPage code txt = \<lparr>ok = False, status = code, statusText = txt,
                               bodyText = Inl (Error ''terminated''), bodyJson = Inl (Error ''terminated'')\<rparr>"

definition envOf :: "(request \<Rightarrow> thrown + content http_response) \<Rightarrow> content env" where
  "envOf f = \<lparr>TMDB_API_KEY = ''0123abcd'', fetch = f,
               convertTMDBMovieToContentWithRealData = (\<lambda>x. x),
               convertTMDBMovieToContent = (\<lambda>x. x),
               convertTMDBTVToContentWithRealData = (\<lambda>x. x),
               convertTMDBTVToContent = (\<lambda>x. x),
               undefinedReadMessage = ''Cannot read properties of undefined''\<rparr>"

text \<open>Two movies and one show, each on a single short page.\<close>

definition smallUpstream :: "request \<Rightarrow> thrown + content http_response" where
  "smallUpstream r =
     (if rpage r = 1 then
        (case endpoint r of SearchMovie \<Rightarrow> Inr (okPage [item3, item1])
                          | SearchTv \<Rightarrow> Inr (okPage [item2])
                          | _ \<Rightarrow> Inr (errorPage 404 ''Not Found''))
      else Inr (okPage []))"

text \<open>A full first page of movies, then a short one; no shows.\<close>

definition twoPageUpstream :: "request \<Rightarrow> thrown + content http_response" where
  "twoPageUpstream r =
     (case endpoint r of
        SearchMovie \<Rightarrow> (if rpage r = 1 then Inr (okPage (replicate 20 item1))
                        else if rpage r = 2 then Inr (okPage [item3])
                        else Inr (okPage []))
      | _ \<Rightarrow> Inr (okPage []))"

text \<open>The movie search answers 500 on every page, the show search has one show.\<close>

definition movieDownUpstream :: "request \<Rightarrow> thrown + content http_response" where
  "movieDownUpstream r =
     (case endpoint r of
        SearchTv \<Rightarrow> (if rpage r = 1 then Inr (okPage [item2]) else Inr (okPage []))
      | _ \<Rightarrow> Inr (errorPage 500 ''Internal Server Error''))"

text \<open>Every call is answered 401, and the body cannot be read.\<close>

definition brokenAuthUpstream :: "request \<Rightarrow> thrown + content http_response" where
  "brokenAuthUpstream r = Inr (brokenBodyPage 401 ''Unauthorized'')"

text \<open>Every call is answered 401 with a readable body.\<close>

definition authUpstream :: "request \<Rightarrow> thrown + content http_response" where
  "authUpstream r = Inr (errorPage 401 ''Unauthorized'')"

definition moviesOnly :: search_filters where
  "moviesOnly = \<lparr>platform = [], fgenre = [], flanguage = [], fcountry = [], ftype = ''movie'',
                 year = None, rating_min = None\<rparr>"

text \<open>A runtime for the examples: strings of decimal digits only, in the year 2025.\<close>

definition digitsOnly :: "string \<Rightarrow> nat option" where
  "digitsOnly s = (if s \<noteq> [] \<and> list_all isDigit s then Some (digitsVal s) else None)"

definition demoRuntime :: runtime where
  "demoRuntime = \<lparr>parseInt = (\<lambda>s. map_option int (digitsOnly s)),
                   parseFloat = (\<lambda>s. map_option real (digitsOnly s)),
                   currentYear = 2025\<rparr>"

definition oldYearParams :: "string \<rightharpoonup> string" where
  "oldYearParams = [''q'' \<mapsto> ''a'', ''year'' \<mapsto> ''1800'', ''rating_min'' \<mapsto> ''11'']"

definition blankParams :: "string \<rightharpoonup> string" where
  "blankParams = [''q'' \<mapsto> ''   '', ''year'' \<mapsto> ''2020'']"

text \<open>An upstream that answers every call with a full page.\<close>

definition endlessUpstream :: "request \<Rightarrow> thrown + content http_response" where
  "endlessUpstream r = Inr (okPage (replicate 20 item1))"

definition longParams :: "string \<rightharpoonup> string" where
  "longParams = [''q'' \<mapsto> replicate 101 CHR ''a'']"

text \<open>No Hugging Face key, and a random comparator that leaves the list as it is.\<close>

definition offlineEnv :: ai_env where
  "offlineEnv = \<lparr>HUGGINGFACE_API_KEY = None,
                  generateRealAIRecommendations = (\<lambda>query cat count. Inl (Error ''Hugging Face API key not configured'')),
                  shuffle = (\<lambda>xs. xs)\<rparr>"

text \<open>A configured key and a text-generation call that answers with one entry.\<close>

definition onlineEnv :: ai_env where
  "onlineEnv = \<lparr>HUGGINGFACE_API_KEY = Some ''hf_demo'',
                 generateRealAIRecommendations = (\<lambda>query cat count.
                   Inr [\<lparr>rid = ''ai_0'', rtitle = ''Alien'', rdescription = ''AI-generated recommendation'',
                          category = cat, confidence = 0.8\<rparr>]),
                 shuffle = (\<lambda>xs. xs)\<rparr>"

text \<open>A query of white space with no-break spaces, and parameters within range.\<close>

definition nbspParams :: "string \<rightharpoonup> string" where
  "nbspParams = [''q'' \<mapsto> [CHR 0xA0, CHR 0x09, CHR 0xA0]]"

definition goodParams :: "string \<rightharpoonup> string" where
  "goodParams = [''q'' \<mapsto> ''a'', ''year'' \<mapsto> ''2020'', ''rating_min'' \<mapsto> ''7'']"

section \<open>Properties of applyFilters\<close>

lemma if_False_else: "(if a then False else b) = (\<not> a \<and> b)"
  by simp
lemma keepItem_conj:
  "keepItem f x = (typeOk f x \<and> genreOk f x \<and> languageOk f x \<and> countryOk f x
                   \<and> platformOk f x \<and> ratingOk f x \<and> yearOk f x)"
  unfolding keepItem_def typeOk_def genreOk_def languageOk_def countryOk_def
    platformOk_def ratingOk_def yearOk_def
  by (simp only: if_False_else simp_thms)

lemma keepItem_all: "keepItem f x = (\<forall>p \<in> set (fieldPredicates f). p x)"
  by (simp add: keepItem_conj fieldPredicates_def)

lemma filterEach_all: "filterEach ps xs = filter (\<lambda>x. \<forall>p \<in> set ps. p x) xs"
  unfolding filterEach_def
  by (induction ps) (auto intro: filter_cong)

text \<open>
  C3. applyFilters keeps exactly the items that satisfy the conjunction of the seven
  field-level predicates, and filtering by the seven predicates one at a time, taken in
  any order, gives the same list.
\<close>

theorem applyFilters_conjunction_any_order:
  "applyFilters content filters
     = filter (\<lambda>x. typeOk filters x \<and> genreOk filters x \<and> languageOk filters x \<and> countryOk filters x
                     \<and> platformOk filters x \<and> ratingOk filters x \<and> yearOk filters x) content
   \<and> (\<forall>ps. set ps = set (fieldPredicates filters)
          \<longrightarrow> filterEach ps content = applyFilters content filters)"
proof (intro conjI allI impI)
  have "keepItem filters = (\<lambda>x. typeOk filters x \<and> genreOk filters x \<and> languageOk filters x
          \<and> countryOk filters x \<and> platformOk filters x \<and> ratingOk filters x \<and> yearOk filters x)"
    by (rule ext) (rule keepItem_conj)
  then show "applyFilters content filters
     = filter (\<lambda>x. typeOk filters x \<and> genreOk filters x \<and> languageOk filters x \<and> countryOk filters x
                     \<and> platformOk filters x \<and> ratingOk filters x \<and> yearOk filters x) content"
    by (simp only: applyFilters_def)
next
  fix ps :: "(content \<Rightarrow> bool) list"
  assume same: "set ps = set (fieldPredicates filters)"
  have "keepItem filters = (\<lambda>x. \<forall>p \<in> set ps. p x)"
    by (rule ext) (simp only: keepItem_all same)
  then show "filterEach ps content = applyFilters content filters"
    by (simp only: filterEach_all applyFilters_def)
qed

theorem applyFilters_conjunction_any_order_witness:
  "set (rev (fieldPredicates horrorMovies)) = set (fieldPredicates horrorMovies)
   \<and> filterEach (rev (fieldPredicates horrorMovies)) [item1, item2, item3] = [item1]"
proof -
  have h: "set (rev (fieldPredicates horrorMovies)) = set (fieldPredicates horrorMovies)"
    by simp
  have "filterEach (rev (fieldPredicates horrorMovies)) [item1, item2, item3]
          = applyFilters [item1, item2, item3] horrorMovies"
    using applyFilters_conjunction_any_order [of "[item1, item2, item3]" horrorMovies] h
    by blast
  also have "\<dots> = [item1]"
    by code_simp
  finally show ?thesis using h by simp
qed

text \<open>
  C5, as stated, fails for the TMDB rating: with a minimum rating of 8 the item rated
  7.96 by TMDB stays in the output, because its IMDB rating is 8.0.
\<close>

theorem rating_floor_tmdb_counterexample:
  "item2 \<in> set (applyFilters [item2] floor8) \<and> rating_min floor8 = Some 8
   \<and> tmdb_rating item2 < 8"
  by code_simp

text \<open>
  C5 (amended). With a minimum rating \<open>r > 0\<close>, every item in the output of
  applyFilters has a TMDB rating or an IMDB rating of at least \<open>r\<close>; and an input item
  that passes the other six filters is kept exactly when one of its two ratings is at
  least \<open>r\<close>, that is, dropped exactly when both are below.
\<close>

theorem applyFilters_rating_floor:
  assumes "rating_min filters = Some r" and "r > 0"
  shows "(x \<in> set (applyFilters content filters) \<longrightarrow> tmdb_rating x \<ge> r \<or> imdb_rating x \<ge> r)
       \<and> (x \<in> set content \<and> typeOk filters x \<and> genreOk filters x \<and> languageOk filters x
            \<and> countryOk filters x \<and> platformOk filters x \<and> yearOk filters x
          \<longrightarrow> (x \<in> set (applyFilters content filters)
                 \<longleftrightarrow> tmdb_rating x \<ge> r \<or> imdb_rating x \<ge> r))"
  using assms by (auto simp: applyFilters_def keepItem_conj ratingOk_def)

theorem applyFilters_rating_floor_witness:
  "rating_min floor8 = Some 8 \<and> (8::real) > 0
   \<and> item2 \<in> set (applyFilters [item2, item3] floor8)
   \<and> (tmdb_rating item2 \<ge> 8 \<or> imdb_rating item2 \<ge> 8)
   \<and> item3 \<in> set [item2, item3]
   \<and> typeOk floor8 item3 \<and> genreOk floor8 item3 \<and> languageOk floor8 item3
   \<and> countryOk floor8 item3 \<and> platformOk floor8 item3 \<and> yearOk floor8 item3
   \<and> tmdb_rating item3 < 8 \<and> imdb_rating item3 < 8
   \<and> item3 \<notin> set (applyFilters [item2, item3] floor8)"
proof -
  have h: "rating_min floor8 = Some 8" "(8::real) > 0" by code_simp+
  have a: "item2 \<in> set (applyFilters [item2, item3] floor8)" by code_simp
  have b: "item3 \<in> set [item2, item3]" by simp
  have c: "typeOk floor8 item3 \<and> genreOk floor8 item3 \<and> languageOk floor8 item3
   \<and> countryOk floor8 item3 \<and> platformOk floor8 item3 \<and> yearOk floor8 item3" by code_simp
  have d: "tmdb_rating item3 < 8 \<and> imdb_rating item3 < 8" by code_simp
  from applyFilters_rating_floor [OF h, of item2 "[item2, item3]"] a
  have e: "tmdb_rating item2 \<ge> 8 \<or> imdb_rating item2 \<ge> 8" by blast
  from applyFilters_rating_floor [OF h, of item3 "[item2, item3]"] b c d
  have f: "item3 \<notin> set (applyFilters [item2, item3] floor8)" by auto
  from h a b c d e f show ?thesis by blast
qed


text \<open>
  C9. The output of applyFilters is a subsequence of its input (the items are those of
  the input, unchanged, in their order, none repeated or invented), and with every
  string field empty and both numeric fields absent the output is the input.
\<close>

theorem applyFilters_subseq:
  "subseq (applyFilters content filters) content
   \<and> (platform filters = [] \<and> fgenre filters = [] \<and> flanguage filters = []
        \<and> fcountry filters = [] \<and> ftype filters = []
        \<and> year filters = None \<and> rating_min filters = None
      \<longrightarrow> applyFilters content filters = content)"
  by (simp add: applyFilters_def keepItem_def)

theorem applyFilters_subseq_witness:
  "(platform noFilters = [] \<and> fgenre noFilters = [] \<and> flanguage noFilters = []
        \<and> fcountry noFilters = [] \<and> ftype noFilters = []
        \<and> year noFilters = None \<and> rating_min noFilters = None)
   \<and> applyFilters [item1, item2, item3] noFilters = [item1, item2, item3]
   \<and> subseq (applyFilters [item1, item2, item3] floor8) [item1, item2, item3]"
proof -
  have h: "platform noFilters = [] \<and> fgenre noFilters = [] \<and> flanguage noFilters = []
        \<and> fcountry noFilters = [] \<and> ftype noFilters = []
        \<and> year noFilters = None \<and> rating_min noFilters = None"
    by (simp add: noFilters_def)
  then show ?thesis
    using applyFilters_subseq [of "[item1, item2, item3]" noFilters]
      applyFilters_subseq [of "[item1, item2, item3]" floor8]
    by blast
qed

section \<open>The pagination loop\<close>

lemma searchLoop_last:
  assumes "\<not> fullPage (fst (search p))"
  shows "searchLoop search p acc errs calls
         = Some (acc @ pageItems (fst (search p)), errs @ pageErrors (fst (search p)),
                 calls @ snd (search p))"
  using assms
  by (subst searchLoop.simps)
     (auto simp: fullPage_def pageItems_def pageErrors_def split: prod.splits)

lemma searchLoop_full:
  assumes "fullPage (fst (search p))"
  shows "searchLoop search p acc errs calls
         = searchLoop search (Suc p) (acc @ pageItems (fst (search p))) errs (calls @ snd (search p))"
  using assms
  by (subst searchLoop.simps)
     (auto simp: fullPage_def pageItems_def pageErrors_def split: prod.splits)

lemma pageErrors_full: "fullPage r \<Longrightarrow> pageErrors r = []"
  by (simp add: fullPage_def pageErrors_def)

lemma searchLoop_run:
  assumes "\<forall>j<k. fullPage (fst (search (p + j)))" and "\<not> fullPage (fst (search (p + k)))"
  shows "searchLoop search p acc errs calls
         = Some (acc @ concat (map (\<lambda>i. pageItems (fst (search i))) [p..<p + k + 1]),
                 errs @ pageErrors (fst (search (p + k))),
                 calls @ concat (map (\<lambda>i. snd (search i)) [p..<p + k + 1]))"
  using assms
proof (induction k arbitrary: p acc errs calls)
  case 0
  then show ?case by (simp add: searchLoop_last)
next
  case (Suc k)
  have full: "fullPage (fst (search p))" using Suc.prems(1) by (metis add.right_neutral zero_less_Suc)
  have rest: "\<forall>j<k. fullPage (fst (search (Suc p + j)))" using Suc.prems(1) by auto
  have stop: "\<not> fullPage (fst (search (Suc p + k)))" using Suc.prems(2) by simp
  have up: "[p..<p + Suc k + 1] = p # [Suc p..<Suc p + k + 1]"
    by (simp add: upt_rec)
  show ?case
    by (simp only: searchLoop_full [of search p, OF full] Suc.IH [of "Suc p", OF rest stop] up) simp
qed


lemma searchLoop_never:
  assumes "\<forall>p. fullPage (fst (search p))"
  shows "searchLoop search p acc errs calls = None"
proof (rule ccontr)
  assume "searchLoop search p acc errs calls \<noteq> None"
  then obtain y where y: "searchLoop search p acc errs calls = Some y" by auto
  have "search \<noteq> search"
  proof (rule searchLoop.raw_induct [where P = "\<lambda>s p acc errs calls y. s \<noteq> search", OF _ y])
    fix f and s :: "nat \<Rightarrow> api_response \<times> request list" and p :: nat
      and acc :: "content list" and errs :: "string list" and calls :: "request list"
      and r :: "content list \<times> string list \<times> request list"
    assume IH: "\<And>s p acc errs calls y. f s p acc errs calls = Some y \<Longrightarrow> s \<noteq> search"
      and body: "(case s p of
      (response, made) \<Rightarrow>
        if success response \<and> data response \<noteq> None \<and> 0 < length (the (data response))
        then if length (the (data response)) < 20
             then Some (acc @ the (data response), errs, calls @ made)
             else f s (p + 1) (acc @ the (data response)) errs (calls @ made)
        else Some (acc,
               if \<not> success response \<and> error response \<noteq> None \<and> error response \<noteq> Some []
               then errs @ [the (error response)] else errs,
               calls @ made)) = Some r"
    show "s \<noteq> search"
    proof
      assume eq: "s = search"
      obtain response made where sp: "search p = (response, made)" by (cases "search p")
      have "fullPage response" using assms sp by (metis fst_conv)
      then have "success response \<and> data response \<noteq> None \<and> 0 < length (the (data response))
                 \<and> \<not> length (the (data response)) < 20"
        by (auto simp: fullPage_def)
      then have "f search (p + 1) (acc @ the (data response)) errs (calls @ made) = Some r"
        using body eq sp by simp
      then show False using IH by blast
    qed
  qed
  then show False by simp
qed

section \<open>The rating sort\<close>

lemma total_cmp: "compareRatings a b \<le> 0 \<or> compareRatings b a \<le> 0"
  by (auto simp: compareRatings_def)

lemma trans_cmp: "compareRatings a b \<le> 0 \<Longrightarrow> compareRatings b c \<le> 0 \<Longrightarrow> compareRatings a c \<le> 0"
  by (auto simp: compareRatings_def split: if_splits)

lemma set_insertBy: "set (insertBy cmp x ys) = insert x (set ys)"
  by (induction ys) auto

lemma sorted_insertBy:
  assumes "sorted_wrt (\<lambda>a b. compareRatings a b \<le> 0) ys"
  shows "sorted_wrt (\<lambda>a b. compareRatings a b \<le> 0) (insertBy compareRatings x ys)"
  using assms
proof (induction ys)
  case Nil
  then show ?case by simp
next
  case (Cons y ys)
  show ?case
  proof (cases "compareRatings x y \<le> 0")
    case True
    then show ?thesis using Cons.prems by (auto intro: trans_cmp)
  next
    case False
    then have "compareRatings y x \<le> 0" using total_cmp by blast
    then show ?thesis using False Cons by (auto simp: set_insertBy)
  qed
qed

lemma sorted_sortBy: "sorted_wrt (\<lambda>a b. compareRatings a b \<le> 0) (sortBy compareRatings xs)"
  unfolding sortBy_def by (induction xs) (simp_all add: sorted_insertBy)

lemma set_sortBy: "set (sortBy cmp xs) = set xs"
  unfolding sortBy_def by (induction xs) (simp_all add: set_insertBy)

lemma length_insertBy: "length (insertBy cmp x ys) = Suc (length ys)"
  by (induction ys) auto

lemma sortBy_Nil_iff: "sortBy cmp xs = [] \<longleftrightarrow> xs = []"
  by (metis set_sortBy set_empty)

lemma compareRatings_le0:
  "compareRatings a b \<le> 0 \<longleftrightarrow>
     tmdb_rating a \<ge> tmdb_rating b \<and> (tmdb_rating a = tmdb_rating b \<longrightarrow> imdb_rating a \<ge> imdb_rating b)"
  by (auto simp: compareRatings_def)

lemma sortBy_adjacent:
  assumes "Suc i < length (sortBy compareRatings xs)"
  shows "compareRatings (sortBy compareRatings xs ! i) (sortBy compareRatings xs ! Suc i) \<le> 0"
  using sorted_sortBy [of xs] assms
  by (simp add: sorted_wrt_iff_nth_less)

lemma searchLoop_SomeD:
  assumes "searchLoop search p acc errs calls = Some y"
  shows "\<exists>k. (\<forall>j<k. fullPage (fst (search (p + j)))) \<and> \<not> fullPage (fst (search (p + k)))"
proof (rule searchLoop.raw_induct
    [where P = "\<lambda>s p acc errs calls y.
                  \<exists>k. (\<forall>j<k. fullPage (fst (s (p + j)))) \<and> \<not> fullPage (fst (s (p + k)))",
     OF _ assms])
  fix f and s :: "nat \<Rightarrow> api_response \<times> request list" and p :: nat
    and acc :: "content list" and errs :: "string list" and calls :: "request list"
    and r :: "content list \<times> string list \<times> request list"
  assume IH: "\<And>s p acc errs calls y. f s p acc errs calls = Some y \<Longrightarrow>
                \<exists>k. (\<forall>j<k. fullPage (fst (s (p + j)))) \<and> \<not> fullPage (fst (s (p + k)))"
    and body: "(case s p of
      (response, made) \<Rightarrow>
        if success response \<and> data response \<noteq> None \<and> 0 < length (the (data response))
        then if length (the (data response)) < 20
             then Some (acc @ the (data response), errs, calls @ made)
             else f s (p + 1) (acc @ the (data response)) errs (calls @ made)
        else Some (acc,
               if \<not> success response \<and> error response \<noteq> None \<and> error response \<noteq> Some []
               then errs @ [the (error response)] else errs,
               calls @ made)) = Some r"
  show "\<exists>k. (\<forall>j<k. fullPage (fst (s (p + j)))) \<and> \<not> fullPage (fst (s (p + k)))"
  proof (cases "fullPage (fst (s p))")
    case False
    then have "(\<forall>j<0. fullPage (fst (s (p + j)))) \<and> \<not> fullPage (fst (s (p + 0)))" by simp
    then show ?thesis by blast
  next
    case True
    obtain response made where sp: "s p = (response, made)" by (cases "s p")
    have "success response \<and> data response \<noteq> None \<and> 0 < length (the (data response))
                 \<and> \<not> length (the (data response)) < 20"
      using True sp by (auto simp: fullPage_def)
    then have "f s (p + 1) (acc @ the (data response)) errs (calls @ made) = Some r"
      using body sp by simp
    from IH [OF this] obtain k where
      k: "\<forall>j<k. fullPage (fst (s (p + 1 + j)))" "\<not> fullPage (fst (s (p + 1 + k)))" by blast
    have "\<forall>j<Suc k. fullPage (fst (s (p + j)))"
    proof (intro allI impI)
      fix j assume "j < Suc k"
      show "fullPage (fst (s (p + j)))"
      proof (cases j)
        case 0
        then show ?thesis using True by simp
      next
        case (Suc j')
        then have "j' < k" using \<open>j < Suc k\<close> by simp
        then show ?thesis using k(1) Suc by (simp add: add.commute add.left_commute)
      qed
    qed
    moreover have "\<not> fullPage (fst (s (p + Suc k)))" using k(2) by (simp add: add.commute add.left_commute)
    ultimately show ?thesis by blast
  qed
qed

section \<open>Properties of searchContent\<close>

lemma finishSearch_success:
  assumes "success (finishSearch env allResults filters)"
  shows "\<exists>xs. data (finishSearch env allResults filters) = Some (sortBy compareRatings xs)"
  using assms
  by (auto simp: finishSearch_def failure_def Let_def split: sum.splits option.splits if_splits)

lemma searchContent_cases:
  assumes "searchContent env query filters = Some (response, calls)"
  shows "(\<exists>e. response = failure e) \<or> (\<exists>xs. response = finishSearch env xs filters)"
  using assms
  by (auto simp: searchContent_def Let_def split: if_splits option.splits prod.splits)

text \<open>
  C2. The list in a success response of searchContent is sorted by TMDB rating,
  descending, with the IMDB rating, descending, as tie-break: for adjacent items the
  earlier TMDB rating is at least the later one, and on equal TMDB ratings the earlier
  IMDB rating is at least the later one.
\<close>

theorem searchContent_sorted:
  assumes "searchContent env query filters = Some (response, calls)"
    and "success response"
  shows "\<exists>xs. data response = Some xs
          \<and> (\<forall>i. Suc i < length xs \<longrightarrow>
                 tmdb_rating (xs ! i) \<ge> tmdb_rating (xs ! Suc i)
               \<and> (tmdb_rating (xs ! i) = tmdb_rating (xs ! Suc i)
                    \<longrightarrow> imdb_rating (xs ! i) \<ge> imdb_rating (xs ! Suc i)))"
proof -
  from searchContent_cases [OF assms(1)] assms(2)
  obtain ys where "response = finishSearch env ys filters"
    by (auto simp: failure_def)
  with assms(2) obtain zs where zs: "data response = Some (sortBy compareRatings zs)"
    using finishSearch_success by blast
  have "\<forall>i. Suc i < length (sortBy compareRatings zs) \<longrightarrow>
          compareRatings (sortBy compareRatings zs ! i) (sortBy compareRatings zs ! Suc i) \<le> 0"
    using sortBy_adjacent by blast
  then show ?thesis
    using zs by (simp add: compareRatings_le0)
qed

lemma pageItems_succeed: "pageItems (succeed xs) = xs"
  by (simp add: pageItems_def succeed_def)

lemma pageErrors_succeed: "pageErrors (succeed xs) = []"
  by (simp add: pageErrors_def succeed_def)

lemma fullPage_succeed: "fullPage (succeed xs) = (length xs \<ge> 20)"
  by (simp add: fullPage_def succeed_def)

lemma pageItems_failure: "pageItems (failure e) = []"
  by (simp add: pageItems_def failure_def)

lemma pageErrors_failure: "pageErrors (failure e) = (if e = [] then [] else [e])"
  by (simp add: pageErrors_def failure_def)

lemma fullPage_failure: "\<not> fullPage (failure e)"
  by (simp add: fullPage_def failure_def)

lemmas page_simps = pageItems_succeed pageErrors_succeed fullPage_succeed
  pageItems_failure pageErrors_failure fullPage_failure

lemma searchLoop_short_page:
  assumes "search p = (succeed xs, made)" and "length xs < 20"
  shows "searchLoop search p acc errs calls = Some (acc @ xs, errs, calls @ made)"
  using assms by (simp add: searchLoop_last page_simps)

lemma searchLoop_failed_page:
  assumes "search p = (failure e, made)" and "e \<noteq> []"
  shows "searchLoop search p acc errs calls = Some (acc, errs @ [e], calls @ made)"
  using assms by (simp add: searchLoop_last page_simps)

lemma keyMissing_envOf: "\<not> keyMissing (TMDB_API_KEY (envOf f))"
  by (simp add: envOf_def keyMissing_def)

lemma smallUpstream_run:
  "searchContent (envOf smallUpstream) ''a'' (Some noFilters)
    = Some (\<lparr>success = True, data = Some [item1, item2, item3], error = None,
              message = Some ''Found 3 results''\<rparr>,
            [\<lparr>endpoint = SearchMovie, rquery = ''a'', rpage = 1\<rparr>,
             \<lparr>endpoint = SearchTv, rquery = ''a'', rpage = 1\<rparr>])"
proof -
  have m: "searchMovies (envOf smallUpstream) ''a'' 1
             = (succeed [item3, item1], [\<lparr>endpoint = SearchMovie, rquery = ''a'', rpage = 1\<rparr>])"
    by code_simp
  have t: "searchTVShows (envOf smallUpstream) ''a'' 1
             = (succeed [item2], [\<lparr>endpoint = SearchTv, rquery = ''a'', rpage = 1\<rparr>])"
    by code_simp
  have f: "finishSearch (envOf smallUpstream) [item3, item1, item2] (Some noFilters)
             = \<lparr>success = True, data = Some [item1, item2, item3], error = None,
                 message = Some ''Found 3 results''\<rparr>"
    by code_simp
  show ?thesis
    by (simp add: searchContent_def keyMissing_envOf f
          searchLoop_short_page [of "searchMovies (envOf smallUpstream) ''a''" 1, OF m]
          searchLoop_short_page [of "searchTVShows (envOf smallUpstream) ''a''" 1, OF t]
          del: One_nat_def)
qed

theorem searchContent_sorted_witness:
  "searchContent (envOf smallUpstream) ''a'' (Some noFilters)
    = Some (\<lparr>success = True, data = Some [item1, item2, item3], error = None,
              message = Some ''Found 3 results''\<rparr>,
            [\<lparr>endpoint = SearchMovie, rquery = ''a'', rpage = 1\<rparr>,
             \<lparr>endpoint = SearchTv, rquery = ''a'', rpage = 1\<rparr>])
   \<and> tmdb_rating item1 \<ge> tmdb_rating item2 \<and> tmdb_rating item2 \<ge> tmdb_rating item3"
proof -
  let ?r = "\<lparr>success = True, data = Some [item1, item2, item3], error = None,
              message = Some ''Found 3 results''\<rparr>"
  have s: "success ?r" by simp
  from searchContent_sorted [OF smallUpstream_run s]
  have "\<forall>i. Suc i < length [item1, item2, item3] \<longrightarrow>
          tmdb_rating ([item1, item2, item3] ! i) \<ge> tmdb_rating ([item1, item2, item3] ! Suc i)"
    by simp
  then have "tmdb_rating ([item1, item2, item3] ! 0) \<ge> tmdb_rating ([item1, item2, item3] ! Suc 0)
           \<and> tmdb_rating ([item1, item2, item3] ! 1) \<ge> tmdb_rating ([item1, item2, item3] ! Suc 1)"
    by (metis One_nat_def Suc_lessI length_Cons less_Suc_eq list.size(3) zero_less_Suc lessI)
  then show ?thesis using smallUpstream_run by simp
qed

lemma searchLoop_shift:
  assumes "searchLoop search p [] [] [] = Some (xs, es, cs)"
  shows "searchLoop search p acc errs calls = Some (acc @ xs, errs @ es, calls @ cs)"
proof -
  from searchLoop_SomeD [OF assms] obtain k where
    k: "\<forall>j<k. fullPage (fst (search (p + j)))" "\<not> fullPage (fst (search (p + k)))" by blast
  from searchLoop_run [OF k, of "[]" "[]" "[]"] assms
  have "xs = concat (map (\<lambda>i. pageItems (fst (search i))) [p..<p + k + 1])"
    and "es = pageErrors (fst (search (p + k)))"
    and "cs = concat (map (\<lambda>i. snd (search i)) [p..<p + k + 1])"
    by simp_all
  then show ?thesis using searchLoop_run [OF k, of acc errs calls] by simp
qed

lemma snd_searchMovies:
  "\<not> keyMissing (TMDB_API_KEY env) \<Longrightarrow>
     snd (searchMovies env q p) = [\<lparr>endpoint = SearchMovie, rquery = q, rpage = p\<rparr>]"
  by (simp add: searchMovies_def Let_def)

lemma snd_searchTVShows:
  "\<not> keyMissing (TMDB_API_KEY env) \<Longrightarrow>
     snd (searchTVShows env q p) = [\<lparr>endpoint = SearchTv, rquery = q, rpage = p\<rparr>]"
  by (simp add: searchTVShows_def Let_def)

lemma searchLoop_calls:
  assumes "searchLoop search p [] [] [] = Some (xs, es, cs)"
    and "\<And>i. snd (search i) = [\<lparr>endpoint = ep, rquery = q, rpage = i\<rparr>]"
  shows "\<exists>n. cs = map (\<lambda>i. \<lparr>endpoint = ep, rquery = q, rpage = i\<rparr>) [p..<n]"
proof -
  from searchLoop_SomeD [OF assms(1)] obtain k where
    k: "\<forall>j<k. fullPage (fst (search (p + j)))" "\<not> fullPage (fst (search (p + k)))" by blast
  from searchLoop_run [OF k, of "[]" "[]" "[]"] assms(1)
  have "cs = concat (map (\<lambda>i. snd (search i)) [p..<p + k + 1])" by simp
  also have "\<dots> = concat (map (\<lambda>i. [\<lparr>endpoint = ep, rquery = q, rpage = i\<rparr>]) [p..<p + k + 1])"
    by (simp only: assms(2))
  also have "\<dots> = map (\<lambda>i. \<lparr>endpoint = ep, rquery = q, rpage = i\<rparr>) [p..<p + k + 1]"
    by (induction "[p..<p + k + 1]") (simp_all add: concat_map_singleton)
  finally show ?thesis by blast
qed

lemma distinct_calls:
  "distinct (map (\<lambda>i. \<lparr>endpoint = ep, rquery = q, rpage = i\<rparr>) [p..<n])"
  by (simp add: distinct_map inj_on_def)

lemma finishSearch_some:
  assumes "applyFilters allResults f \<noteq> []"
  shows "success (finishSearch env allResults (Some f))
       \<and> data (finishSearch env allResults (Some f)) = Some (sortBy compareRatings (applyFilters allResults f))"
proof -
  have "allResults \<noteq> []" using assms by (auto simp: applyFilters_def)
  then show ?thesis using assms
    by (simp add: finishSearch_def Let_def sortBy_Nil_iff)
qed

text \<open>
  C6 (amended). With the API key configured and both loops returning: when the two
  searches together produced an item (for instance one search failed with an error and
  the other returned items), searchContent returns the outcome of the filter and sort
  stage on those items, not the collected error; that outcome is a success response
  holding the sorted items that pass the filters whenever at least one passes. The first
  collected error is returned as a failure response when both searches produced no items
  and an error was collected. No outbound search call is made twice.
\<close>

theorem searchContent_partial_results:
  assumes "\<not> keyMissing (TMDB_API_KEY env)"
    and "searchLoop (searchMovies env query) 1 [] [] [] = Some (movieResults, movieErrors, movieCalls)"
    and "searchLoop (searchTVShows env query) 1 [] [] [] = Some (tvResults, tvErrors, tvCalls)"
  shows "(movieResults @ tvResults \<noteq> [] \<or> movieErrors @ tvErrors = []
            \<longrightarrow> searchContent env query filters
                  = Some (finishSearch env (movieResults @ tvResults) filters, movieCalls @ tvCalls))
       \<and> (applyFilters (movieResults @ tvResults) f \<noteq> []
            \<longrightarrow> success (finishSearch env (movieResults @ tvResults) (Some f))
              \<and> data (finishSearch env (movieResults @ tvResults) (Some f))
                  = Some (sortBy compareRatings (applyFilters (movieResults @ tvResults) f)))
       \<and> (movieResults @ tvResults = [] \<and> movieErrors @ tvErrors \<noteq> []
            \<longrightarrow> searchContent env query filters
                  = Some (failure (hd (movieErrors @ tvErrors)), movieCalls @ tvCalls))
       \<and> distinct (movieCalls @ tvCalls)"
proof -
  have tv: "searchLoop (searchTVShows env query) 1 movieResults [] movieCalls
              = Some (movieResults @ tvResults, tvErrors, movieCalls @ tvCalls)"
    using searchLoop_shift [OF assms(3), of movieResults "[]" movieCalls] by simp
  have sc: "searchContent env query filters
              = (if length (movieResults @ tvResults) = 0 \<and> length (movieErrors @ tvErrors) > 0
                 then Some (failure (hd (movieErrors @ tvErrors)), movieCalls @ tvCalls)
                 else Some (finishSearch env (movieResults @ tvResults) filters, movieCalls @ tvCalls))"
    by (simp add: searchContent_def assms(1) assms(2) tv Let_def del: One_nat_def)
  obtain n where n: "movieCalls = map (\<lambda>i. \<lparr>endpoint = SearchMovie, rquery = query, rpage = i\<rparr>) [1..<n]"
    using searchLoop_calls [OF assms(2)] snd_searchMovies [OF assms(1)] by blast
  obtain m where m: "tvCalls = map (\<lambda>i. \<lparr>endpoint = SearchTv, rquery = query, rpage = i\<rparr>) [1..<m]"
    using searchLoop_calls [OF assms(3)] snd_searchTVShows [OF assms(1)] by blast
  have d: "distinct (movieCalls @ tvCalls)"
    unfolding n m by (auto simp: distinct_calls simp del: distinct_map)
  show ?thesis
    using sc d finishSearch_some by auto
qed

lemma movieDown_movies:
  "searchLoop (searchMovies (envOf movieDownUpstream) ''dark'') 1 [] [] []
     = Some ([], [''API request failed: 500 Internal Server Error''],
             [\<lparr>endpoint = SearchMovie, rquery = ''dark'', rpage = 1\<rparr>])"
proof -
  have m: "searchMovies (envOf movieDownUpstream) ''dark'' 1
             = (failure ''API request failed: 500 Internal Server Error'',
                [\<lparr>endpoint = SearchMovie, rquery = ''dark'', rpage = 1\<rparr>])"
    by code_simp
  show ?thesis
    using searchLoop_failed_page [of "searchMovies (envOf movieDownUpstream) ''dark''" 1, OF m]
    by simp
qed

lemma movieDown_tv:
  "searchLoop (searchTVShows (envOf movieDownUpstream) ''dark'') 1 [] [] []
     = Some ([item2], [], [\<lparr>endpoint = SearchTv, rquery = ''dark'', rpage = 1\<rparr>])"
proof -
  have t: "searchTVShows (envOf movieDownUpstream) ''dark'' 1
             = (succeed [item2], [\<lparr>endpoint = SearchTv, rquery = ''dark'', rpage = 1\<rparr>])"
    by code_simp
  show ?thesis
    using searchLoop_short_page [of "searchTVShows (envOf movieDownUpstream) ''dark''" 1, OF t]
    by simp
qed

text \<open>
  C6, as stated, fails when the filters reject the surviving items: the movie search
  fails, the show search returns one show, the filter asks for movies, and searchContent
  returns the not-found failure instead of a success response.
\<close>

theorem partial_result_filtered_out_counterexample:
  "searchLoop (searchMovies (envOf movieDownUpstream) ''dark'') 1 [] [] []
     = Some ([], [''API request failed: 500 Internal Server Error''],
             [\<lparr>endpoint = SearchMovie, rquery = ''dark'', rpage = 1\<rparr>])
   \<and> searchLoop (searchTVShows (envOf movieDownUpstream) ''dark'') 1 [] [] []
     = Some ([item2], [], [\<lparr>endpoint = SearchTv, rquery = ''dark'', rpage = 1\<rparr>])
   \<and> searchContent (envOf movieDownUpstream) ''dark'' (Some moviesOnly)
     = Some (failure notFoundMessage,
             [\<lparr>endpoint = SearchMovie, rquery = ''dark'', rpage = 1\<rparr>,
              \<lparr>endpoint = SearchTv, rquery = ''dark'', rpage = 1\<rparr>])
   \<and> \<not> success (failure notFoundMessage)"
proof -
  have f: "finishSearch (envOf movieDownUpstream) [item2] (Some moviesOnly) = failure notFoundMessage"
    by code_simp
  have "searchContent (envOf movieDownUpstream) ''dark'' (Some moviesOnly)
     = Some (failure notFoundMessage,
             [\<lparr>endpoint = SearchMovie, rquery = ''dark'', rpage = 1\<rparr>,
              \<lparr>endpoint = SearchTv, rquery = ''dark'', rpage = 1\<rparr>])"
    using searchLoop_shift [OF movieDown_tv, of "[]" "[]"
            "[\<lparr>endpoint = SearchMovie, rquery = ''dark'', rpage = 1\<rparr>]"]
    by (simp add: searchContent_def keyMissing_envOf movieDown_movies f del: One_nat_def)
  then show ?thesis
    using movieDown_movies movieDown_tv by (simp add: failure_def)
qed

theorem searchContent_partial_results_witness:
  "\<not> keyMissing (TMDB_API_KEY (envOf movieDownUpstream))
   \<and> searchLoop (searchMovies (envOf movieDownUpstream) ''dark'') 1 [] [] []
     = Some ([], [''API request failed: 500 Internal Server Error''],
             [\<lparr>endpoint = SearchMovie, rquery = ''dark'', rpage = 1\<rparr>])
   \<and> searchLoop (searchTVShows (envOf movieDownUpstream) ''dark'') 1 [] [] []
     = Some ([item2], [], [\<lparr>endpoint = SearchTv, rquery = ''dark'', rpage = 1\<rparr>])
   \<and> applyFilters ([] @ [item2]) noFilters \<noteq> []
   \<and> searchContent (envOf movieDownUpstream) ''dark'' (Some noFilters)
     = Some (finishSearch (envOf movieDownUpstream) ([] @ [item2]) (Some noFilters),
             [\<lparr>endpoint = SearchMovie, rquery = ''dark'', rpage = 1\<rparr>]
             @ [\<lparr>endpoint = SearchTv, rquery = ''dark'', rpage = 1\<rparr>])
   \<and> success (finishSearch (envOf movieDownUpstream) ([] @ [item2]) (Some noFilters))
   \<and> data (finishSearch (envOf movieDownUpstream) ([] @ [item2]) (Some noFilters))
       = Some (sortBy compareRatings (applyFilters ([] @ [item2]) noFilters))
   \<and> sortBy compareRatings (applyFilters ([] @ [item2]) noFilters) = [item2]"
proof -
  have k: "\<not> keyMissing (TMDB_API_KEY (envOf movieDownUpstream))"
    by (rule keyMissing_envOf)
  have a: "applyFilters ([] @ [item2]) noFilters \<noteq> []" by code_simp
  have s: "sortBy compareRatings (applyFilters ([] @ [item2]) noFilters) = [item2]" by code_simp
  have ne: "[] @ [item2] \<noteq> []" by simp
  from searchContent_partial_results [OF k movieDown_movies movieDown_tv, of "Some noFilters" noFilters]
  show ?thesis using k a s ne movieDown_movies movieDown_tv by blast
qed

text \<open>
  C7 (amended). With the API key configured, a non-ok response to a movie or TV search
  call always yields a failure envelope. When the body of the response can be read, the
  error is the authentication message for status 401 and
  \<open>API request failed: <status> <statusText>\<close> for every other status; when reading
  the body fails, the error is \<open>Movie search failed: <message>\<close> (\<open>TV search failed\<close>
  for shows). The function returns an envelope on every path.
\<close>

theorem search_non_ok_envelope:
  assumes "\<not> keyMissing (TMDB_API_KEY env)"
  shows "(fetch env \<lparr>endpoint = SearchMovie, rquery = query, rpage = page\<rparr> = Inr mresponse
            \<and> \<not> ok mresponse \<longrightarrow>
              \<not> success (fst (searchMovies env query page))
            \<and> (bodyText mresponse = Inr mtext \<longrightarrow>
                 fst (searchMovies env query page)
                   = failure (if status mresponse = 401 then authFailedMessage
                              else ''API request failed: '' @ showNat (status mresponse)
                                     @ '' '' @ statusText mresponse))
            \<and> (bodyText mresponse = Inl e \<longrightarrow>
                 fst (searchMovies env query page)
                   = failure (''Movie search failed: '' @ errorMessage e)))
       \<and> (fetch env \<lparr>endpoint = SearchTv, rquery = query, rpage = page\<rparr> = Inr tresponse
            \<and> \<not> ok tresponse \<longrightarrow>
              \<not> success (fst (searchTVShows env query page))
            \<and> (bodyText tresponse = Inr ttext \<longrightarrow>
                 fst (searchTVShows env query page)
                   = failure (if status tresponse = 401 then authFailedMessage
                              else ''API request failed: '' @ showNat (status tresponse)
                                     @ '' '' @ statusText tresponse))
            \<and> (bodyText tresponse = Inl e \<longrightarrow>
                 fst (searchTVShows env query page)
                   = failure (''TV search failed: '' @ errorMessage e)))"
  using assms
  by (auto simp: searchMovies_def searchTVShows_def Let_def failure_def split: sum.splits)

text \<open>
  C7, as stated, fails for a 401 response whose body cannot be read: the read raises
  inside \<open>try\<close>, and the handler reports a search failure, not the authentication
  message.
\<close>

theorem unreadable_401_body_counterexample:
  "fetch (envOf brokenAuthUpstream) \<lparr>endpoint = SearchMovie, rquery = ''dune'', rpage = 1\<rparr>
     = Inr (brokenBodyPage 401 ''Unauthorized'')
   \<and> \<not> ok (brokenBodyPage 401 ''Unauthorized'')
   \<and> status (brokenBodyPage 401 ''Unauthorized'') = 401
   \<and> fst (searchMovies (envOf brokenAuthUpstream) ''dune'' 1) = failure ''Movie search failed: terminated''
   \<and> error (failure ''Movie search failed: terminated'') \<noteq> Some authFailedMessage"
  by code_simp

theorem search_non_ok_envelope_witness:
  "\<not> keyMissing (TMDB_API_KEY (envOf authUpstream))
   \<and> fetch (envOf authUpstream) \<lparr>endpoint = SearchMovie, rquery = ''dune'', rpage = 1\<rparr>
       = Inr (errorPage 401 ''Unauthorized'')
   \<and> \<not> ok (errorPage 401 ''Unauthorized'')
   \<and> bodyText (errorPage 401 ''Unauthorized'') = Inr ''{}''
   \<and> fst (searchMovies (envOf authUpstream) ''dune'' 1) = failure authFailedMessage
   \<and> fetch (envOf movieDownUpstream) \<lparr>endpoint = SearchMovie, rquery = ''dune'', rpage = 1\<rparr>
       = Inr (errorPage 500 ''Internal Server Error'')
   \<and> fst (searchMovies (envOf movieDownUpstream) ''dune'' 1)
       = failure ''API request failed: 500 Internal Server Error''"
proof -
  have k: "\<not> keyMissing (TMDB_API_KEY (envOf authUpstream))"
    and k': "\<not> keyMissing (TMDB_API_KEY (envOf movieDownUpstream))"
    by (rule keyMissing_envOf)+
  have f: "fetch (envOf authUpstream) \<lparr>endpoint = SearchMovie, rquery = ''dune'', rpage = 1\<rparr>
       = Inr (errorPage 401 ''Unauthorized'')" by code_simp
  have f': "fetch (envOf movieDownUpstream) \<lparr>endpoint = SearchMovie, rquery = ''dune'', rpage = 1\<rparr>
       = Inr (errorPage 500 ''Internal Server Error'')" by code_simp
  have o: "\<not> ok (errorPage 401 ''Unauthorized'')" "bodyText (errorPage 401 ''Unauthorized'') = Inr ''{}''"
    "status (errorPage 401 ''Unauthorized'') = 401"
    by (simp_all add: errorPage_def)
  have o': "\<not> ok (errorPage 500 ''Internal Server Error'')"
    "bodyText (errorPage 500 ''Internal Server Error'') = Inr ''{}''"
    "status (errorPage 500 ''Internal Server Error'') = 500"
    "statusText (errorPage 500 ''Internal Server Error'') = ''Internal Server Error''"
    by (simp_all add: errorPage_def)
  have n: "''API request failed: '' @ showNat 500 @ '' '' @ ''Internal Server Error''
            = ''API request failed: 500 Internal Server Error''" by code_simp
  from search_non_ok_envelope [OF k, of "''dune''" 1 "errorPage 401 ''Unauthorized''" "''{}''"] f o
  have a: "fst (searchMovies (envOf authUpstream) ''dune'' 1) = failure authFailedMessage"
    by simp
  from search_non_ok_envelope [OF k', of "''dune''" 1 "errorPage 500 ''Internal Server Error''" "''{}''"] f' o' n
  have b: "fst (searchMovies (envOf movieDownUpstream) ''dune'' 1)
       = failure ''API request failed: 500 Internal Server Error''"
    by simp
  show ?thesis using k f f' o a b by simp
qed

lemma endless_upstream_never_returns:
  "searchContent (envOf endlessUpstream) query filters = None"
proof -
  have "\<forall>p. fullPage (fst (searchMovies (envOf endlessUpstream) query p))"
    by (simp add: searchMovies_def keyMissing_envOf Let_def)
       (simp add: envOf_def endlessUpstream_def okPage_def fullPage_succeed)
  then have "searchLoop (searchMovies (envOf endlessUpstream) query) 1 [] [] [] = None"
    by (rule searchLoop_never)
  then show ?thesis
    by (simp add: searchContent_def keyMissing_envOf del: One_nat_def)
qed

section \<open>Termination of the pagination loop\<close>

lemma endless_pages:
  "searchMovies (envOf endlessUpstream) query p
     = (succeed (replicate 20 item1), [\<lparr>endpoint = SearchMovie, rquery = query, rpage = p\<rparr>])"
  by (simp add: searchMovies_def keyMissing_envOf Let_def)
     (simp add: envOf_def endlessUpstream_def okPage_def)

text \<open>
  C1, as stated, fails: an upstream that answers every movie page with exactly 20 items
  satisfies the assumption (every page a failure or at most 20 items), and the loop, and
  with it searchContent, never returns.
\<close>

theorem endless_full_pages_counterexample:
  "withinPageSize (searchMovies (envOf endlessUpstream) ''dune'')
   \<and> searchLoop (searchMovies (envOf endlessUpstream) ''dune'') 1 [] [] [] = None
   \<and> searchContent (envOf endlessUpstream) ''dune'' (Some noFilters) = None"
proof -
  have w: "withinPageSize (searchMovies (envOf endlessUpstream) ''dune'')"
    by (simp add: withinPageSize_def endless_pages succeed_def)
  have "\<forall>p. fullPage (fst (searchMovies (envOf endlessUpstream) ''dune'' p))"
    by (simp add: endless_pages fullPage_succeed)
  then have "searchLoop (searchMovies (envOf endlessUpstream) ''dune'') 1 [] [] [] = None"
    by (rule searchLoop_never)
  with w show ?thesis by (simp add: endless_upstream_never_returns)
qed

text \<open>
  C1 (amended). If some page at or after the starting page is not a successful page of
  at least 20 items (it has fewer than 20 items, is empty or failed), the page loop of
  searchContent, for either content type, terminates: it stops at the first such page,
  after exactly the requests up to it, and the result array holds the items of all
  fetched pages, concatenated in page order.
\<close>

theorem searchLoop_terminates_at_first_short_page:
  assumes "p \<le> n" and "\<not> fullPage (fst (search n))"
  shows "\<exists>k. p + k \<le> n
           \<and> (\<forall>j<k. fullPage (fst (search (p + j))))
           \<and> \<not> fullPage (fst (search (p + k)))
           \<and> searchLoop search p allResults searchErrors calls
               = Some (allResults @ concat (map (\<lambda>i. pageItems (fst (search i))) [p..<p + k + 1]),
                       searchErrors @ pageErrors (fst (search (p + k))),
                       calls @ concat (map (\<lambda>i. snd (search i)) [p..<p + k + 1]))"
proof -
  define k where "k = (LEAST k. \<not> fullPage (fst (search (p + k))))"
  have ex: "\<not> fullPage (fst (search (p + (n - p))))" using assms by simp
  have stop: "\<not> fullPage (fst (search (p + k)))"
    unfolding k_def by (rule LeastI [of "\<lambda>k. \<not> fullPage (fst (search (p + k)))", OF ex])
  have "k \<le> n - p"
    unfolding k_def by (rule Least_le [of "\<lambda>k. \<not> fullPage (fst (search (p + k)))", OF ex])
  then have le: "p + k \<le> n" using assms(1) by simp
  have full: "\<forall>j<k. fullPage (fst (search (p + j)))"
    unfolding k_def using not_less_Least by blast
  from searchLoop_run [OF full stop, of allResults searchErrors calls] le full stop
  show ?thesis by blast
qed

theorem searchLoop_terminates_at_first_short_page_witness:
  "(1::nat) \<le> 2
   \<and> \<not> fullPage (fst (searchMovies (envOf twoPageUpstream) ''dune'' 2))
   \<and> searchLoop (searchMovies (envOf twoPageUpstream) ''dune'') 1 [] [] []
       = Some (replicate 20 item1 @ [item3], [],
               [\<lparr>endpoint = SearchMovie, rquery = ''dune'', rpage = 1\<rparr>,
                \<lparr>endpoint = SearchMovie, rquery = ''dune'', rpage = 2\<rparr>])"
proof -
  let ?s = "searchMovies (envOf twoPageUpstream) ''dune''"
  have le: "(1::nat) \<le> 2" by simp
  have p1: "fullPage (fst (?s 1))" by code_simp
  have p2: "\<not> fullPage (fst (?s 2))" by code_simp
  have items: "concat (map (\<lambda>i. pageItems (fst (?s i))) [1..<1 + 1 + 1]) = replicate 20 item1 @ [item3]"
    by code_simp
  have errs: "pageErrors (fst (?s (1 + 1))) = []" by code_simp
  have calls: "concat (map (\<lambda>i. snd (?s i)) [1..<1 + 1 + 1])
                = [\<lparr>endpoint = SearchMovie, rquery = ''dune'', rpage = 1\<rparr>,
                   \<lparr>endpoint = SearchMovie, rquery = ''dune'', rpage = 2\<rparr>]"
    by code_simp
  from searchLoop_terminates_at_first_short_page
         [where p = 1 and n = 2 and search = ?s and allResults = "[]" and searchErrors = "[]"
            and calls = "[]", OF le p2]
  obtain k where k: "1 + k \<le> 2" "\<not> fullPage (fst (?s (1 + k)))"
    and r: "searchLoop ?s 1 [] [] []
              = Some ([] @ concat (map (\<lambda>i. pageItems (fst (?s i))) [1..<1 + k + 1]),
                      [] @ pageErrors (fst (?s (1 + k))),
                      [] @ concat (map (\<lambda>i. snd (?s i)) [1..<1 + k + 1]))"
    by blast
  have "k \<noteq> 0" using k(2) p1 by (cases k) auto
  with k(1) have "k = 1" by simp
  with r have "searchLoop ?s 1 [] [] []
       = Some (replicate 20 item1 @ [item3], [],
               [\<lparr>endpoint = SearchMovie, rquery = ''dune'', rpage = 1\<rparr>,
                \<lparr>endpoint = SearchMovie, rquery = ''dune'', rpage = 2\<rparr>])"
    by (simp only: items errs calls append_Nil)
  with le p2 show ?thesis by blast
qed

lemma searchContent_calls:
  assumes "searchContent env query filters = Some (response, calls)"
  shows "\<forall>c \<in> set calls. (endpoint c = SearchMovie \<or> endpoint c = SearchTv) \<and> rquery c = query"
proof (cases "keyMissing (TMDB_API_KEY env)")
  case True
  then show ?thesis using assms by (simp add: searchContent_def)
next
  case False
  from assms False obtain mr me mc where
    m: "searchLoop (searchMovies env query) 1 [] [] [] = Some (mr, me, mc)"
    by (auto simp: searchContent_def split: option.splits simp del: One_nat_def)
  from assms False m obtain ar te ac where
    t: "searchLoop (searchTVShows env query) 1 mr [] mc = Some (ar, te, ac)"
    and c: "calls = ac"
    by (auto simp: searchContent_def Let_def split: option.splits if_splits simp del: One_nat_def)
  from searchLoop_SomeD [OF t] obtain k where
    k: "\<forall>j<k. fullPage (fst (searchTVShows env query (1 + j)))"
       "\<not> fullPage (fst (searchTVShows env query (1 + k)))" by blast
  from searchLoop_run [OF k, of "[]" "[]" "[]"] obtain tr tc where
    t0: "searchLoop (searchTVShows env query) 1 [] [] [] = Some (tr, te, tc)"
    using searchLoop_run [OF k, of mr "[]" mc] t by simp
  have "ac = mc @ tc"
    using searchLoop_shift [OF t0, of mr "[]" mc] t by simp
  moreover obtain n where "mc = map (\<lambda>i. \<lparr>endpoint = SearchMovie, rquery = query, rpage = i\<rparr>) [1..<n]"
    using searchLoop_calls [OF m] snd_searchMovies [OF False] by blast
  moreover obtain n' where "tc = map (\<lambda>i. \<lparr>endpoint = SearchTv, rquery = query, rpage = i\<rparr>) [1..<n']"
    using searchLoop_calls [OF t0] snd_searchTVShows [OF False] by blast
  ultimately show ?thesis using c by auto
qed

section \<open>The query interpreter and the route\<close>

text \<open>
  C4. For the query \<open>top 10 horror movies\<close> the interpreter decides for category
  discovery (no search terms, genre horror), but searchContent issues the two title
  searches for the text as typed: the interpreter is never consulted.
\<close>

theorem interpreter_not_consulted:
  "useDiscoverAPI (parseQueryIntelligently ''top 10 horror movies'' (Some noFilters))
   \<and> searchTerms (parseQueryIntelligently ''top 10 horror movies'' (Some noFilters)) = None
   \<and> pgenre (ifilters (parseQueryIntelligently ''top 10 horror movies'' (Some noFilters))) = Some ''horror''
   \<and> map_option snd (searchContent (envOf smallUpstream) ''top 10 horror movies'' (Some noFilters))
       = Some [\<lparr>endpoint = SearchMovie, rquery = ''top 10 horror movies'', rpage = 1\<rparr>,
               \<lparr>endpoint = SearchTv, rquery = ''top 10 horror movies'', rpage = 1\<rparr>]"
  by code_simp

text \<open>
  C10. GET answers 400, with no outbound call and whatever searchContent would do, when
  \<open>q\<close> is missing, empty or white space only, or longer than 100 characters. Otherwise
  it answers from searchContent on the trimmed query and the built filters, in which a
  year that does not parse into 1900 .. current year + 5, or a minimum rating that does
  not parse into 0 .. 10, is left out, the string filters being passed on unchanged; a
  year or minimum rating within its range is passed on as parsed.
\<close>

theorem GET_validation:
  "((searchParams ''q'' = None \<or> searchParams ''q'' = Some q \<and> trim q = [])
      \<longrightarrow> GET rt env searchParams = Some (badRequest ''Search query is required'', []))
   \<and> (searchParams ''q'' = Some q \<and> trim q \<noteq> [] \<and> length q > 100
      \<longrightarrow> GET rt env searchParams = Some (badRequest ''Search query too long (max 100 characters)'', []))
   \<and> httpStatus (badRequest e) = 400 \<and> \<not> success (body (badRequest e))
   \<and> (searchParams ''q'' = Some q \<and> trim q \<noteq> [] \<and> length q \<le> 100
      \<longrightarrow> GET rt env searchParams
            = map_option (\<lambda>(result, calls). (respond result, calls))
                (searchContent env (trim q) (Some (buildFilters rt searchParams))))
   \<and> (searchParams ''year'' = Some y
        \<and> \<not> (\<exists>n. parseInt rt y = Some n \<and> 1900 \<le> n \<and> n \<le> currentYear rt + 5)
      \<longrightarrow> year (buildFilters rt searchParams) = None)
   \<and> (searchParams ''rating_min'' = Some r
        \<and> \<not> (\<exists>x. parseFloat rt r = Some x \<and> 0 \<le> x \<and> x \<le> 10)
      \<longrightarrow> rating_min (buildFilters rt searchParams) = None)
   \<and> platform (buildFilters rt searchParams) = getOrEmpty searchParams ''platform''
   \<and> fgenre (buildFilters rt searchParams) = getOrEmpty searchParams ''genre''
   \<and> flanguage (buildFilters rt searchParams) = getOrEmpty searchParams ''language''
   \<and> fcountry (buildFilters rt searchParams) = getOrEmpty searchParams ''country''
   \<and> ftype (buildFilters rt searchParams) = getOrEmpty searchParams ''type''
   \<and> (searchParams ''year'' = Some y \<and> y \<noteq> [] \<and> parseInt rt y = Some n
        \<and> 1900 \<le> n \<and> n \<le> currentYear rt + 5
      \<longrightarrow> year (buildFilters rt searchParams) = Some n)
   \<and> (searchParams ''rating_min'' = Some r \<and> r \<noteq> [] \<and> parseFloat rt r = Some x
        \<and> 0 \<le> x \<and> x \<le> 10
      \<longrightarrow> rating_min (buildFilters rt searchParams) = Some x)"
proof -
  have trim_Nil: "trim [] = []" by (simp add: trim_def)
  have a: "(searchParams ''q'' = None \<or> searchParams ''q'' = Some q \<and> trim q = [])
      \<longrightarrow> GET rt env searchParams = Some (badRequest ''Search query is required'', [])"
    by (auto simp: GET_def)
  have b: "searchParams ''q'' = Some q \<and> trim q \<noteq> [] \<and> length q > 100
      \<longrightarrow> GET rt env searchParams = Some (badRequest ''Search query too long (max 100 characters)'', [])"
    using trim_Nil by (auto simp: GET_def)
  have c: "searchParams ''q'' = Some q \<and> trim q \<noteq> [] \<and> length q \<le> 100
      \<longrightarrow> GET rt env searchParams
            = map_option (\<lambda>(result, calls). (respond result, calls))
                (searchContent env (trim q) (Some (buildFilters rt searchParams)))"
    using trim_Nil by (auto simp: GET_def split: option.splits)
  have d: "searchParams ''year'' = Some y
        \<and> \<not> (\<exists>n. parseInt rt y = Some n \<and> 1900 \<le> n \<and> n \<le> currentYear rt + 5)
      \<longrightarrow> year (buildFilters rt searchParams) = None"
    by (auto simp: buildFilters_def Let_def split: option.splits)
  have e: "searchParams ''rating_min'' = Some r
        \<and> \<not> (\<exists>x. parseFloat rt r = Some x \<and> 0 \<le> x \<and> x \<le> 10)
      \<longrightarrow> rating_min (buildFilters rt searchParams) = None"
    by (auto simp: buildFilters_def Let_def split: option.splits)
  have f: "platform (buildFilters rt searchParams) = getOrEmpty searchParams ''platform''
   \<and> fgenre (buildFilters rt searchParams) = getOrEmpty searchParams ''genre''
   \<and> flanguage (buildFilters rt searchParams) = getOrEmpty searchParams ''language''
   \<and> fcountry (buildFilters rt searchParams) = getOrEmpty searchParams ''country''
   \<and> ftype (buildFilters rt searchParams) = getOrEmpty searchParams ''type''"
    by (simp add: buildFilters_def Let_def split: option.splits)
  have g: "httpStatus (badRequest e) = 400 \<and> \<not> success (body (badRequest e))"
    by (simp add: badRequest_def failure_def)
  have h: "searchParams ''year'' = Some y \<and> y \<noteq> [] \<and> parseInt rt y = Some n
        \<and> 1900 \<le> n \<and> n \<le> currentYear rt + 5
      \<longrightarrow> year (buildFilters rt searchParams) = Some n"
    by (auto simp: buildFilters_def Let_def split: option.splits)
  have i: "searchParams ''rating_min'' = Some r \<and> r \<noteq> [] \<and> parseFloat rt r = Some x
        \<and> 0 \<le> x \<and> x \<le> 10
      \<longrightarrow> rating_min (buildFilters rt searchParams) = Some x"
    by (auto simp: buildFilters_def Let_def split: option.splits)
  from a b c d e f g h i show ?thesis by blast
qed

theorem GET_validation_witness:
  "blankParams ''q'' = Some ''   '' \<and> trim ''   '' = []
   \<and> searchContent (envOf endlessUpstream) (trim ''   '') (Some (buildFilters demoRuntime blankParams)) = None
   \<and> GET demoRuntime (envOf endlessUpstream) blankParams
       = Some (badRequest ''Search query is required'', [])
   \<and> longParams ''q'' = Some (replicate 101 CHR ''a'')
   \<and> GET demoRuntime (envOf endlessUpstream) longParams
       = Some (badRequest ''Search query too long (max 100 characters)'', [])
   \<and> oldYearParams ''q'' = Some ''a'' \<and> oldYearParams ''year'' = Some ''1800''
   \<and> oldYearParams ''rating_min'' = Some ''11''
   \<and> parseInt demoRuntime ''1800'' = Some 1800 \<and> parseFloat demoRuntime ''11'' = Some 11
   \<and> year (buildFilters demoRuntime oldYearParams) = None
   \<and> rating_min (buildFilters demoRuntime oldYearParams) = None
   \<and> GET demoRuntime (envOf smallUpstream) oldYearParams
       = map_option (\<lambda>(result, calls). (respond result, calls))
           (searchContent (envOf smallUpstream) (trim ''a'') (Some (buildFilters demoRuntime oldYearParams)))
   \<and> map_option (httpStatus \<circ> fst) (GET demoRuntime (envOf smallUpstream) oldYearParams) = Some 200
   \<and> nbspParams ''q'' = Some [CHR 0xA0, CHR 0x09, CHR 0xA0]
   \<and> GET demoRuntime (envOf endlessUpstream) nbspParams
       = Some (badRequest ''Search query is required'', [])
   \<and> goodParams ''year'' = Some ''2020'' \<and> goodParams ''rating_min'' = Some ''7''
   \<and> year (buildFilters demoRuntime goodParams) = Some 2020
   \<and> rating_min (buildFilters demoRuntime goodParams) = Some 7"
proof -
  have q4: "nbspParams ''q'' = Some [CHR 0xA0, CHR 0x09, CHR 0xA0]"
    by (simp add: nbspParams_def)
  have t4: "trim [CHR 0xA0, CHR 0x09, CHR 0xA0] = []" by code_simp
  have g4: "GET demoRuntime (envOf endlessUpstream) nbspParams
       = Some (badRequest ''Search query is required'', [])"
    using GET_validation [where searchParams = nbspParams and q = "[CHR 0xA0, CHR 0x09, CHR 0xA0]"
        and rt = demoRuntime and env = "envOf endlessUpstream"] q4 t4 by blast
  have q5: "goodParams ''year'' = Some ''2020''" "goodParams ''rating_min'' = Some ''7''"
    by (simp_all add: goodParams_def)
  have p5: "''2020'' \<noteq> [] \<and> parseInt demoRuntime ''2020'' = Some 2020
              \<and> (1900::int) \<le> 2020 \<and> 2020 \<le> currentYear demoRuntime + 5"
    by code_simp
  have r5: "''7'' \<noteq> [] \<and> parseFloat demoRuntime ''7'' = Some 7 \<and> (0::real) \<le> 7 \<and> (7::real) \<le> 10"
    by code_simp
  note v5 = GET_validation [where searchParams = goodParams and rt = demoRuntime
        and y = "''2020''" and n = 2020 and r = "''7''" and x = 7]
  have y5: "year (buildFilters demoRuntime goodParams) = Some 2020"
    using v5 q5 p5 by blast
  have x5: "rating_min (buildFilters demoRuntime goodParams) = Some 7"
    using v5 q5 r5 by blast
  have q1: "blankParams ''q'' = Some ''   ''" by (simp add: blankParams_def)
  have t1: "trim ''   '' = []" by code_simp
  have g1: "GET demoRuntime (envOf endlessUpstream) blankParams
       = Some (badRequest ''Search query is required'', [])"
    using GET_validation [where searchParams = blankParams and q = "''   ''" and rt = demoRuntime
        and env = "envOf endlessUpstream"] q1 t1 by blast
  have q2: "longParams ''q'' = Some (replicate 101 CHR ''a'')" by (simp add: longParams_def)
  have t2: "trim (replicate 101 CHR ''a'') \<noteq> []" by code_simp
  have l2: "length (replicate 101 CHR ''a'') > 100" by simp
  have g2: "GET demoRuntime (envOf endlessUpstream) longParams
       = Some (badRequest ''Search query too long (max 100 characters)'', [])"
    using GET_validation [where searchParams = longParams and q = "replicate 101 CHR ''a''"
        and rt = demoRuntime and env = "envOf endlessUpstream"] q2 t2 l2 by blast
  have q3: "oldYearParams ''q'' = Some ''a''" "oldYearParams ''year'' = Some ''1800''"
    "oldYearParams ''rating_min'' = Some ''11''"
    by (simp_all add: oldYearParams_def)
  have t3: "trim ''a'' \<noteq> []" by code_simp
  have l3: "length ''a'' \<le> 100" by simp
  have py: "parseInt demoRuntime ''1800'' = Some 1800" by code_simp
  have pr: "parseFloat demoRuntime ''11'' = Some 11" by code_simp
  have ny: "\<not> (\<exists>n. parseInt demoRuntime ''1800'' = Some n \<and> 1900 \<le> n
                    \<and> n \<le> currentYear demoRuntime + 5)"
    using py by simp
  have nr: "\<not> (\<exists>x. parseFloat demoRuntime ''11'' = Some x \<and> 0 \<le> x \<and> x \<le> 10)"
    using pr by simp
  note v = GET_validation [where searchParams = oldYearParams and q = "''a''" and rt = demoRuntime
        and env = "envOf smallUpstream" and y = "''1800''" and r = "''11''"]
  have g3: "GET demoRuntime (envOf smallUpstream) oldYearParams
       = map_option (\<lambda>(result, calls). (respond result, calls))
           (searchContent (envOf smallUpstream) (trim ''a'') (Some (buildFilters demoRuntime oldYearParams)))"
    using v q3 t3 l3 by blast
  have y3: "year (buildFilters demoRuntime oldYearParams) = None"
    using v q3 ny by blast
  have r3: "rating_min (buildFilters demoRuntime oldYearParams) = None"
    using v q3 nr by blast
  have s3: "map_option (httpStatus \<circ> fst) (GET demoRuntime (envOf smallUpstream) oldYearParams) = Some 200"
    by code_simp
  have n1: "searchContent (envOf endlessUpstream) (trim ''   '') (Some (buildFilters demoRuntime blankParams)) = None"
    by (rule endless_upstream_never_returns)
  from q1 t1 n1 g1 q2 g2 q3 py pr y3 r3 g3 s3 q4 g4 q5 y5 x5 show ?thesis by blast
qed

section \<open>Properties of the recommendation generator\<close>

lemma topLists_tagged:
  "list_all (\<lambda>(key, list). list \<noteq> []
      \<and> list_all (\<lambda>r. str_includes (toLowerCase (category r)) key) list) topLists"
  by code_simp

lemma sliceTo_take:
  "(if real (length xs) > real n then sliceTo xs (real n) else xs) = take n xs"
  by (simp add: sliceTo_def)

text \<open>
  C8 (amended). For a query that matches the top-list pattern (a request verb, then
  top/best with an optional count, then the category), when no Hugging Face key is
  configured or the text-generation call fails, and the extracted category
  substring-matches some key of the static table: the generator returns the list of the
  first matching key in table order, cut to the requested count (to its first \<open>N\<close>
  entries when the count is read as \<open>N\<close>), and every entry of that list carries the
  key in its category tag.
\<close>

theorem topList_recommendations:
  assumes "regexMatch topListPattern query = Some caps"
    and "HUGGINGFACE_API_KEY env = None \<or> HUGGINGFACE_API_KEY env = Some []
         \<or> generateRealAIRecommendations env query (matchedCategory caps)
              (requestedCount rt caps maxRecommendations) = Inl e"
    and "(aKey, aList) \<in> set topLists"
    and "keyMatches (toLowerCase (matchedCategory caps)) aKey"
  shows "\<exists>key list.
           find (\<lambda>(key, list). keyMatches (toLowerCase (matchedCategory caps)) key) topLists
             = Some (key, list)
         \<and> generateAIRecommendations rt env query maxRecommendations
             = (case requestedCount rt caps maxRecommendations of
                  None \<Rightarrow> list
                | Some n \<Rightarrow> if real (length list) > n then sliceTo list n else list)
         \<and> (\<forall>d N. map_of caps 1 = Some d \<and> parseInt rt d = Some (int N)
                \<longrightarrow> generateAIRecommendations rt env query maxRecommendations = take N list)
         \<and> (\<forall>r \<in> set list. str_includes (toLowerCase (category r)) key)"
proof -
  let ?cat = "matchedCategory caps"
  let ?count = "requestedCount rt caps maxRecommendations"
  let ?P = "\<lambda>(key, list). keyMatches (toLowerCase ?cat) key"
  have "find ?P topLists \<noteq> None"
    using assms(3,4) by (auto simp: find_None_iff)
  then obtain key list where f: "find ?P topLists = Some (key, list)"
    by (cases "find ?P topLists") auto
  then have mem: "(key, list) \<in> set topLists"
    by (auto simp: find_Some_iff in_set_conv_nth)
  with topLists_tagged have ne: "list \<noteq> []"
    and tag: "\<forall>r \<in> set list. str_includes (toLowerCase (category r)) key"
    by (auto simp: list_all_iff)
  have top: "generateTopListRecommendations ?cat ?count
               = (case ?count of
                    None \<Rightarrow> list
                  | Some n \<Rightarrow> if real (length list) > n then sliceTo list n else list)"
    using f ne by (simp add: generateTopListRecommendations_def Let_def split: option.splits)
  have gen: "generateAIRecommendations rt env query maxRecommendations
               = generateTopListRecommendations ?cat ?count"
    using assms(1,2) by (auto simp: generateAIRecommendations_def Let_def split: sum.splits)
  have "\<forall>d N. map_of caps 1 = Some d \<and> parseInt rt d = Some (int N)
          \<longrightarrow> generateAIRecommendations rt env query maxRecommendations = take N list"
    using gen top by (auto simp: requestedCount_def sliceTo_def)
  with f gen top tag show ?thesis by auto
qed

theorem topList_recommendations_witness:
  "regexMatch topListPattern ''list top 3 best horror movies'' = Some [(2, ''horror ''), (1, ''3'')]
   \<and> HUGGINGFACE_API_KEY offlineEnv = None
   \<and> (''horror'', the (map_of topLists ''horror'')) \<in> set topLists
   \<and> keyMatches (toLowerCase (matchedCategory [(2, ''horror ''), (1, ''3'')])) ''horror''
   \<and> generateAIRecommendations demoRuntime offlineEnv ''list top 3 best horror movies'' 50
       = take 3 (the (map_of topLists ''horror''))
   \<and> map rtitle (generateAIRecommendations demoRuntime offlineEnv ''list top 3 best horror movies'' 50)
       = [''Hereditary'', ''The Conjuring'', ''Get Out'']
   \<and> map rtitle (generateAIRecommendations demoRuntime offlineEnv
                    (''show top 2 best'' @ [CHR 0xA0] @ ''horror movies'') 50)
       = [''Hereditary'', ''The Conjuring'']"
proof -
  have nb: "map rtitle (generateAIRecommendations demoRuntime offlineEnv
                    (''show top 2 best'' @ [CHR 0xA0] @ ''horror movies'') 50)
       = [''Hereditary'', ''The Conjuring'']" by code_simp
  let ?caps = "[(2::nat, ''horror ''), (1, ''3'')]"
  let ?L = "the (map_of topLists ''horror'')"
  have m: "regexMatch topListPattern ''list top 3 best horror movies'' = Some ?caps" by code_simp
  have h: "HUGGINGFACE_API_KEY offlineEnv = None" by (simp add: offlineEnv_def)
  have i: "(''horror'', ?L) \<in> set topLists" by code_simp
  have k: "keyMatches (toLowerCase (matchedCategory ?caps)) ''horror''" by code_simp
  have f: "find (\<lambda>(key, list). keyMatches (toLowerCase (matchedCategory ?caps)) key) topLists
             = Some (''horror'', ?L)" by code_simp
  have d: "map_of ?caps 1 = Some ''3''" by simp
  have n: "parseInt demoRuntime ''3'' = Some (int 3)" by code_simp
  from topList_recommendations
         [OF m, where env = offlineEnv and rt = demoRuntime and maxRecommendations = 50
            and aKey = "''horror''" and aList = ?L] h i k
  obtain key list where
    fk: "find (\<lambda>(key, list). keyMatches (toLowerCase (matchedCategory ?caps)) key) topLists
       = Some (key, list)"
    and tk: "\<forall>d N. map_of ?caps 1 = Some d \<and> parseInt demoRuntime d = Some (int N)
          \<longrightarrow> generateAIRecommendations demoRuntime offlineEnv ''list top 3 best horror movies'' 50
                = take N list"
    by blast
  from fk f have "Some (key, list) = Some (''horror'', ?L)" by (rule trans [OF sym])
  then have l: "list = ?L" by simp
  from tk d n have "generateAIRecommendations demoRuntime offlineEnv ''list top 3 best horror movies'' 50
                   = take 3 list" by blast
  then have g: "generateAIRecommendations demoRuntime offlineEnv ''list top 3 best horror movies'' 50
                       = take 3 ?L" by (simp only: l)
  have t: "map rtitle (take 3 ?L) = [''Hereditary'', ''The Conjuring'', ''Get Out'']" by code_simp
  from m h i k g t nb show ?thesis by simp
qed

text \<open>
  C8, as stated, fails twice. The query \<open>top 5 best horror movies\<close> has no request verb,
  so it does not match the pattern and is answered from the default mock entries, none
  of them horror. And a matching query is answered by the text-generation call, not by
  the static table, when a key is configured and the call succeeds.
\<close>

theorem top_5_best_horror_counterexample:
  "regexMatch topListPattern ''top 5 best horror movies'' = None
   \<and> map rtitle (generateAIRecommendations demoRuntime offlineEnv ''top 5 best horror movies'' 5)
       = [''Breaking Bad'', ''The Mandalorian'', ''Parasite'']
   \<and> map category (generateAIRecommendations demoRuntime offlineEnv ''top 5 best horror movies'' 5)
       = [''Crime Drama'', ''Sci-Fi Adventure'', ''International Thriller'']
   \<and> regexMatch topListPattern ''list top 5 best horror movies'' = Some [(2, ''horror ''), (1, ''5'')]
   \<and> map rtitle (generateAIRecommendations demoRuntime onlineEnv ''list top 5 best horror movies'' 5) = [''Alien'']
   \<and> map rid (generateAIRecommendations demoRuntime onlineEnv ''list top 5 best horror movies'' 5) = [''ai_0'']"
  by code_simp

end
